theory Spec2Isabelle
  imports Complex_Main
begin

section \<open>Data model (src/src/storage.ts, src/src/alarms.ts)\<close>

text \<open>
  JavaScript numbers that hold millisecond timestamps and intervals are modelled as
  unbounded integers (the column type is INTEGER; no value below comes near 2^53).
  Several interfaces of the source share field names (\<open>id\<close>, \<open>type\<close>, \<open>payload\<close>);
  the fields carry a one-letter prefix per interface: \<open>r_\<close> for a stored row
  (\<open>AlarmRecord\<close>), \<open>a_\<close> for a parsed \<open>Alarm\<close>, \<open>o_\<close> for \<open>ScheduleAlarmOptions\<close>,
  \<open>h_\<close> for \<open>AlarmHandleResult\<close>, \<open>s_\<close> for \<open>ScheduledEventSnapshot\<close>, \<open>x_\<close> for
  \<open>XStateAlarmData\<close>.
\<close>

text \<open>
  A JSON value. Payloads are carried, never inspected, by the code below; numbers in
  them are kept to integers.
\<close>

datatype json =
    JNull
  | JBool bool
  | JNum int
  | JStr string
  | JArr "json list"
  | JObj "(string \<times> json) list"

text \<open>\<open>interface AlarmRecord\<close>: one row of the \<open>alarms\<close> table.\<close>

record AlarmRecord =
  r_id :: string
  r_type :: string
  scheduled_at :: int
  repeat_interval :: "int option"
  r_payload :: "string option"
  created_at :: int

text \<open>\<open>interface Alarm\<close>: a row with its payload parsed.\<close>

record Alarm =
  a_id :: string
  a_type :: string
  scheduledAt :: int
  repeatInterval :: "int option"
  a_payload :: json
  createdAt :: int

text \<open>\<open>interface ScheduleAlarmOptions\<close> (and \<open>AlarmScheduleOptions\<close> of storage.ts).\<close>

record ScheduleAlarmOptions =
  o_id :: string
  o_type :: string
  o_scheduledAt :: int
  o_repeatInterval :: "int option"
  o_payload :: json

text \<open>\<open>interface AlarmHandleResult\<close>.\<close>

record AlarmHandleResult =
  h_id :: string
  h_type :: string
  rescheduled :: bool
  deleted :: bool

text \<open>
  \<open>interface ScheduledEventSnapshot\<close> of the scheduler module: the value type of its
  in-memory index. An event object is a JSON value.
\<close>

record ScheduledEventSnapshot =
  s_sourceSessionId :: string
  s_targetSessionId :: string
  s_event :: json
  s_delay :: int
  s_id :: string
  s_startedAt :: int

text \<open>
  What an awaited call can reject with: the SQL engine refusing an INSERT whose
  \<open>id\<close> is already a primary key, the \<open>SyntaxError\<close> of \<open>JSON.parse\<close>, and the
  \<open>TypeError\<close> of iterating a value that is not iterable.
\<close>

datatype error = SqlConstraintPrimaryKey | JsonSyntaxError | TypeError

text \<open>
  The state one Durable Object holds: the \<open>alarms\<close> table (rows in insertion order),
  the \<open>initialized\<close> flag of \<open>ActorKitStorage\<close>,
  the two volatile fields of \<open>AlarmManager\<close>, the calls made to the platform's
  \<open>state.storage.setAlarm\<close>, and the \<open>Map\<close> objects of the scheduler module
  (introduced with the scheduler below). Lines written with \<open>console.error\<close> are
  output, not state: the drain reports them in its trace.
\<close>

record world =
  alarms :: "AlarmRecord list"
  initialized :: bool
  currentAlarmId :: "string option"
  currentAlarmTime :: "int option"
  setAlarmCalls :: "int list"
  mapHeap :: "(string \<times> ScheduledEventSnapshot) list list"

section \<open>ActorKitStorage (src/src/storage.ts)\<close>

text \<open>
  \<open>ensureInitialized\<close>: the schema text is executed on the first operation only.
  \<open>CREATE TABLE IF NOT EXISTS\<close> leaves an existing table as it is.
\<close>

definition ensureInitialized :: "world \<Rightarrow> world" where
  "ensureInitialized w =
     (if initialized w then w else w\<lparr>initialized := True\<rparr>)"

text \<open>
  The three SELECT statements. What a statement selects is modelled: the rows that
  match, with \<open>ORDER BY scheduled_at ASC\<close> as the stable sort by deadline (rows with
  equal deadlines keep their insertion order). The source hands what \<open>sql.exec\<close>
  returns to \<open>parseRows\<close> and casts the decoded records to \<open>AlarmRecord[]\<close>; that
  decoding is modelled on its own further down, and the reads here are taken to
  return the selected rows, which is what \<open>parseRows\<close> makes of a result that comes
  in one batch of a shape it provides for. A driver whose result decodes to fewer
  rows makes the read return fewer. For that reason every property of the drain
  below is stated for the rows and alarms the read returned, not for the rows
  stored.
\<close>

definition storage_getAlarms :: "world \<Rightarrow> AlarmRecord list \<times> world" where
  "storage_getAlarms w =
     (let w1 = ensureInitialized w in (sort_key scheduled_at (alarms w1), w1))"

definition storage_getDueAlarms :: "int \<Rightarrow> world \<Rightarrow> AlarmRecord list \<times> world" where
  "storage_getDueAlarms before w =
     (let w1 = ensureInitialized w
      in (sort_key scheduled_at (filter (\<lambda>r. scheduled_at r \<le> before) (alarms w1)), w1))"

definition storage_getEarliestAlarm :: "world \<Rightarrow> AlarmRecord option \<times> world" where
  "storage_getEarliestAlarm w =
     (let w1 = ensureInitialized w
      in (case sort_key scheduled_at (alarms w1) of
            [] \<Rightarrow> (None, w1)
          | r # _ \<Rightarrow> (Some r, w1)))"

text \<open>
  \<open>insertAlarm\<close>: a plain INSERT (no ON CONFLICT clause) into a table whose \<open>id\<close> is the
  primary key, so the engine rejects an id that is already stored. \<open>stringify\<close> is
  the runtime's \<open>JSON.stringify\<close>, \<open>t\<close> the reading of \<open>Date.now()\<close>.
\<close>

definition storage_insertAlarm ::
  "(json \<Rightarrow> string) \<Rightarrow> int \<Rightarrow> ScheduleAlarmOptions \<Rightarrow> world \<Rightarrow> (error + unit) \<times> world" where
  "storage_insertAlarm stringify t opts w =
     (let w1 = ensureInitialized w
      in if \<exists>r \<in> set (alarms w1). r_id r = o_id opts
         then (Inl SqlConstraintPrimaryKey, w1)
         else (Inr (),
               w1\<lparr>alarms := alarms w1 @
                  [\<lparr>r_id = o_id opts, r_type = o_type opts,
                    scheduled_at = o_scheduledAt opts,
                    repeat_interval = o_repeatInterval opts,
                    r_payload = Some (stringify (o_payload opts)),
                    created_at = t\<rparr>]\<rparr>))"

text \<open>\<open>updateAlarm\<close>: UPDATE ... WHERE id = ?; no row with that id, no change.\<close>

definition storage_updateAlarm ::
  "(json \<Rightarrow> string) \<Rightarrow> ScheduleAlarmOptions \<Rightarrow> world \<Rightarrow> world" where
  "storage_updateAlarm stringify opts w =
     (let w1 = ensureInitialized w
      in w1\<lparr>alarms :=
           map (\<lambda>r. if r_id r = o_id opts
                     then r\<lparr>scheduled_at := o_scheduledAt opts,
                            repeat_interval := o_repeatInterval opts,
                            r_payload := Some (stringify (o_payload opts))\<rparr>
                     else r)
               (alarms w1)\<rparr>)"

definition storage_deleteAlarm :: "string \<Rightarrow> world \<Rightarrow> world" where
  "storage_deleteAlarm i w =
     (let w1 = ensureInitialized w
      in w1\<lparr>alarms := filter (\<lambda>r. r_id r \<noteq> i) (alarms w1)\<rparr>)"

definition storage_deleteAlarmsByType :: "string \<Rightarrow> world \<Rightarrow> world" where
  "storage_deleteAlarmsByType ty w =
     (let w1 = ensureInitialized w
      in w1\<lparr>alarms := filter (\<lambda>r. r_type r \<noteq> ty) (alarms w1)\<rparr>)"

section \<open>AlarmManager (src/src/alarms.ts)\<close>

text \<open>
  \<open>rescheduleNextAlarm\<close>: with no row stored, both volatile fields are set to null and
  the platform is not called; otherwise the platform alarm is set only when the
  earliest row's id or deadline differs from the volatile pair.
\<close>

definition rescheduleNextAlarm :: "world \<Rightarrow> world" where
  "rescheduleNextAlarm w =
     (case storage_getEarliestAlarm w of
        (None, w1) \<Rightarrow> w1\<lparr>currentAlarmId := None, currentAlarmTime := None\<rparr>
      | (Some earliest, w1) \<Rightarrow>
          if currentAlarmId w1 \<noteq> Some (r_id earliest)
             \<or> currentAlarmTime w1 \<noteq> Some (scheduled_at earliest)
          then w1\<lparr>currentAlarmId := Some (r_id earliest),
                  currentAlarmTime := Some (scheduled_at earliest),
                  setAlarmCalls := setAlarmCalls w1 @ [scheduled_at earliest]\<rparr>
          else w1)"

text \<open>\<open>schedule\<close>: the insert is awaited first; when it rejects, nothing else runs.\<close>

definition schedule ::
  "(json \<Rightarrow> string) \<Rightarrow> int \<Rightarrow> ScheduleAlarmOptions \<Rightarrow> world \<Rightarrow> (error + unit) \<times> world" where
  "schedule stringify t opts w =
     (case storage_insertAlarm stringify t opts w of
        (Inl e, w1) \<Rightarrow> (Inl e, w1)
      | (Inr u, w1) \<Rightarrow> (Inr (), rescheduleNextAlarm w1))"

definition cancel :: "string \<Rightarrow> world \<Rightarrow> world" where
  "cancel i w =
     (let w1 = storage_deleteAlarm i w
      in if currentAlarmId w1 = Some i then rescheduleNextAlarm w1 else w1)"

definition cancelByType :: "string \<Rightarrow> world \<Rightarrow> world" where
  "cancelByType ty w = rescheduleNextAlarm (storage_deleteAlarmsByType ty w)"

definition getCurrentAlarm :: "world \<Rightarrow> string option \<times> int option" where
  "getCurrentAlarm w = (currentAlarmId w, currentAlarmTime w)"

text \<open>
  \<open>parseAlarmRecord\<close>: a null or empty payload column gives the empty object; any
  other string goes through the runtime's \<open>JSON.parse\<close> (the parameter \<open>parse\<close>,
  \<open>None\<close> where it throws its \<open>SyntaxError\<close>). Nothing catches that exception.
\<close>

definition parseAlarmRecord :: "(string \<Rightarrow> json option) \<Rightarrow> AlarmRecord \<Rightarrow> error + Alarm" where
  "parseAlarmRecord parse record =
     (case (case r_payload record of
              None \<Rightarrow> Some (JObj [])
            | Some s \<Rightarrow> if s = [] then Some (JObj []) else parse s) of
        None \<Rightarrow> Inl JsonSyntaxError
      | Some p \<Rightarrow>
          Inr \<lparr>a_id = r_id record, a_type = r_type record,
               scheduledAt = scheduled_at record,
               repeatInterval = repeat_interval record,
               a_payload = p, createdAt = created_at record\<rparr>)"

text \<open>\<open>records.map(this.parseAlarmRecord)\<close>: the first exception ends the map.\<close>

fun map_parseAlarmRecord ::
  "(string \<Rightarrow> json option) \<Rightarrow> AlarmRecord list \<Rightarrow> error + Alarm list" where
  "map_parseAlarmRecord parse [] = Inr []"
| "map_parseAlarmRecord parse (r # rs) =
     (case parseAlarmRecord parse r of
        Inl e \<Rightarrow> Inl e
      | Inr a \<Rightarrow>
          (case map_parseAlarmRecord parse rs of
             Inl e \<Rightarrow> Inl e
           | Inr as \<Rightarrow> Inr (a # as)))"

definition getPendingAlarms ::
  "(string \<Rightarrow> json option) \<Rightarrow> world \<Rightarrow> (error + Alarm list) \<times> world" where
  "getPendingAlarms parse w =
     (case storage_getAlarms w of
        (records, w1) \<Rightarrow> (map_parseAlarmRecord parse records, w1))"

definition getDueAlarms ::
  "(string \<Rightarrow> json option) \<Rightarrow> int \<Rightarrow> world \<Rightarrow> (error + Alarm list) \<times> world" where
  "getDueAlarms parse before w =
     (case storage_getDueAlarms before w of
        (records, w1) \<Rightarrow> (map_parseAlarmRecord parse records, w1))"

definition deleteAlarm :: "string \<Rightarrow> world \<Rightarrow> world" where
  "deleteAlarm i w = storage_deleteAlarm i w"

definition updateAlarm :: "(json \<Rightarrow> string) \<Rightarrow> ScheduleAlarmOptions \<Rightarrow> world \<Rightarrow> world" where
  "updateAlarm stringify opts w = storage_updateAlarm stringify opts w"

text \<open>
  What awaiting the handler gives: it resolves, or it rejects with a message (a
  handler whose promise never settles is outside the model). The handler is a
  closure of the caller: besides its outcome it may change the state (it may, for
  one, call \<open>schedule\<close> or \<open>cancel\<close> on the same manager).
\<close>

datatype outcome = Resolved bool | Rejected string

type_synonym handler = "Alarm \<Rightarrow> world \<Rightarrow> outcome \<times> world"

text \<open>The two statements the drain sends to the table.\<close>

datatype statement =
    SqlUpdate ScheduleAlarmOptions
  | SqlDelete string

text \<open>
  What is observed of one iteration of the loop of \<open>handleDueAlarms\<close>: the alarm,
  the state in which the iteration starts, the statement it sends, the state in
  which the handler is called, what awaiting the handler gave and the state the
  handler left, and the line written with \<open>console.error\<close> (with the error's
  message) when the handler rejected. The drain returns these records next to its
  results.
\<close>

record step =
  st_alarm :: Alarm
  st_before :: world
  st_statement :: statement
  st_received :: world
  st_outcome :: outcome
  st_returned :: world
  st_logged :: "(string \<times> string) option"

text \<open>
  The first half of the loop body of \<open>handleDueAlarms\<close>. \<open>if (alarm.repeatInterval)\<close>
  takes the recurring branch for a number other than 0 (undefined and 0 are falsy):
  the row is updated to \<open>now + alarm.repeatInterval\<close>. Otherwise the row is deleted.
  The result is the pair of flags \<open>(rescheduled, deleted)\<close>, the state and the
  statement sent.
\<close>

definition mutate ::
  "(json \<Rightarrow> string) \<Rightarrow> int \<Rightarrow> Alarm \<Rightarrow> world \<Rightarrow> bool \<times> bool \<times> world \<times> statement" where
  "mutate stringify now alarm w =
     (case repeatInterval alarm of
        None \<Rightarrow> (False, True, deleteAlarm (a_id alarm) w, SqlDelete (a_id alarm))
      | Some interval \<Rightarrow>
          if interval \<noteq> 0
          then (let nextScheduledAt = now + interval;
                    opts = \<lparr>o_id = a_id alarm, o_type = a_type alarm,
                            o_scheduledAt = nextScheduledAt,
                            o_repeatInterval = Some interval,
                            o_payload = a_payload alarm\<rparr>
                in (True, False, updateAlarm stringify opts w, SqlUpdate opts))
          else (False, True, deleteAlarm (a_id alarm) w, SqlDelete (a_id alarm)))"

text \<open>
  The second half: the handler is awaited inside try/catch; a rejection is logged
  with \<open>console.error\<close> and swallowed. The result is the outcome, the state the
  handler left and the line logged, if any.
\<close>

definition invoke ::
  "handler \<Rightarrow> Alarm \<Rightarrow> world \<Rightarrow> outcome \<times> world \<times> (string \<times> string) option" where
  "invoke handler alarm w =
     (case handler alarm w of
        (Resolved b, w2) \<Rightarrow> (Resolved b, w2, None)
      | (Rejected msg, w2) \<Rightarrow>
          (Rejected msg, w2, Some (''Error handling alarm '' @ a_id alarm @ '':'', msg)))"

text \<open>The \<open>for (const alarm of dueAlarms)\<close> loop, with the result records it pushes.\<close>

fun drain ::
  "(json \<Rightarrow> string) \<Rightarrow> int \<Rightarrow> handler \<Rightarrow> Alarm list \<Rightarrow> world
     \<Rightarrow> AlarmHandleResult list \<times> world \<times> step list" where
  "drain stringify now handler [] w = ([], w, [])"
| "drain stringify now handler (alarm # rest) w =
     (case mutate stringify now alarm w of
        (resched, del, w1, stmt) \<Rightarrow>
          (case invoke handler alarm w1 of
             (out, w2, logged) \<Rightarrow>
               (case drain stringify now handler rest w2 of
                  (results, w4, steps) \<Rightarrow>
                    (\<lparr>h_id = a_id alarm, h_type = a_type alarm,
                       rescheduled = resched, deleted = del\<rparr> # results,
                     w4,
                     \<lparr>st_alarm = alarm, st_before = w, st_statement = stmt,
                       st_received = w1, st_outcome = out, st_returned = w2,
                       st_logged = logged\<rparr> # steps))))"

text \<open>
  \<open>handleDueAlarms\<close>: \<open>now\<close> is read once; a rejection of \<open>getDueAlarms\<close> leaves the
  function before the loop and before the rearm.
\<close>

definition handleDueAlarms ::
  "(string \<Rightarrow> json option) \<Rightarrow> (json \<Rightarrow> string) \<Rightarrow> int \<Rightarrow> handler \<Rightarrow> world
     \<Rightarrow> (error + AlarmHandleResult list) \<times> world \<times> step list" where
  "handleDueAlarms parse stringify now handler w =
     (case getDueAlarms parse now w of
        (Inl e, w1) \<Rightarrow> (Inl e, w1, [])
      | (Inr dueAlarms, w1) \<Rightarrow>
          (case drain stringify now handler dueAlarms w1 of
             (results, w2, steps) \<Rightarrow> (Inr results, rescheduleNextAlarm w2, steps)))"

text \<open>The primary key of the table: no two rows share an id.\<close>

definition primary_key :: "world \<Rightarrow> bool" where
  "primary_key w = distinct (map r_id (alarms w))"

section \<open>Decoding driver results (src/src/storage.ts, parseRows)\<close>

text \<open>
  A cell of a result row is a string, a number or null. A property of a decoded
  record holds a cell, or \<open>undefined\<close> where the row is shorter than the column list
  (\<open>obj[col] = row[i]\<close>). A decoded record is a map from column names to such values.
\<close>

datatype sqlvalue = SqlNull | SqlInt int | SqlText string

datatype jsvalue = Undefined | Cell sqlvalue

text \<open>
  A batch object with the four properties \<open>parseRows\<close> reads (\<open>columns\<close>,
  \<open>columnNames\<close>, \<open>rows\<close>, \<open>results\<close>, here with the prefix \<open>b_\<close>); \<open>None\<close> is a
  property that is absent (undefined) or null.
\<close>

record batch =
  b_columns :: "string list option"
  b_columnNames :: "string list option"
  b_rows :: "sqlvalue list list option"
  b_results :: "sqlvalue list list option"

text \<open>
  What \<open>sql.exec\<close> hands to \<open>parseRows\<close>: an object with \<open>Symbol.asyncIterator\<close>
  (the batches it yields), an array of batches, one batch object, or a falsy value
  such as null or undefined.
\<close>

datatype exec_result =
    Cursor "batch list"
  | Batches "batch list"
  | Single batch
  | Nullish

text \<open>\<open>columns.forEach((col, i) => { obj[col] = row[i]; })\<close> from the empty object.\<close>

definition row_object :: "string list \<Rightarrow> sqlvalue list \<Rightarrow> (string \<rightharpoonup> jsvalue)" where
  "row_object cols row =
     foldl (\<lambda>obj (i, col). obj(col \<mapsto> (if i < length row then Cell (row ! i) else Undefined)))
       Map.empty (enumerate 0 cols)"

text \<open>
  The cursor branch: \<open>for await (const batch of cursor)\<close>. The column list is taken
  from the first batch that has one (\<open>if (!columns) columns = batch.columns\<close>; an
  array, even an empty one, is truthy). \<open>for (const row of batch.results)\<close> throws a
  TypeError when the batch has no \<open>results\<close>.
\<close>

fun cursor_rows ::
  "string list option \<Rightarrow> batch list \<Rightarrow> error + (string \<rightharpoonup> jsvalue) list" where
  "cursor_rows cols [] = Inr []"
| "cursor_rows cols (b # bs) =
     (let cols' = (case cols of None \<Rightarrow> b_columns b | Some c \<Rightarrow> Some c)
      in case b_results b of
           None \<Rightarrow> Inl TypeError
         | Some rs \<Rightarrow>
             (case cursor_rows cols' bs of
                Inl e \<Rightarrow> Inl e
              | Inr out \<Rightarrow>
                  Inr (map (row_object (case cols' of None \<Rightarrow> [] | Some c \<Rightarrow> c)) rs @ out)))"

text \<open>
  \<open>parseRows\<close>. Outside the cursor branch only \<open>batches[0]\<close> is read: its \<open>columns\<close>
  (else \<open>columnNames\<close>) and its \<open>rows\<close> (else \<open>results\<close>).
\<close>

definition parseRows :: "exec_result \<Rightarrow> error + (string \<rightharpoonup> jsvalue) list" where
  "parseRows result =
     (case result of
        Cursor bs \<Rightarrow> cursor_rows None bs
      | _ \<Rightarrow>
          (let batches = (case result of Batches bs \<Rightarrow> bs | Single b \<Rightarrow> [b] | _ \<Rightarrow> [])
           in case batches of
                [] \<Rightarrow> Inr []
              | first # _ \<Rightarrow>
                  (let cols = (case b_columns first of
                                 Some c \<Rightarrow> c
                               | None \<Rightarrow> (case b_columnNames first of Some c \<Rightarrow> c | None \<Rightarrow> []));
                       rs = (case b_rows first of
                               Some r \<Rightarrow> r
                             | None \<Rightarrow> (case b_results first of Some r \<Rightarrow> r | None \<Rightarrow> []))
                   in if cols = [] \<or> rs = [] then Inr []
                      else Inr (map (row_object cols) rs))))"

section \<open>The alarm scheduler for XState (src/unnamed/part_000)\<close>

text \<open>\<open>interface XStateAlarmData\<close>; the \<open>type\<close> property is compared at run time.\<close>

record XStateAlarmData =
  x_type :: string
  x_sourceSessionId :: string
  x_targetSessionId :: string
  x_event :: json
  x_scheduledEventId :: string
  x_alarmId :: string

text \<open>An element of the argument of \<open>restoreScheduledEvents\<close>.\<close>

record RestoredAlarm =
  ra_payload :: XStateAlarmData
  ra_scheduledAt :: int

text \<open>
  \<open>NOOP_CLOCK\<close>. \<open>setTimeout\<close> ignores its arguments and returns what \<open>Math.random()\<close>
  returns; \<open>random\<close> is that value, a number at least 0 and below 1. \<open>timers\<close> stands
  for whatever the runtime has pending: neither function touches it.
\<close>

definition NOOP_CLOCK_setTimeout :: "real \<Rightarrow> 'fn \<Rightarrow> int \<Rightarrow> 'timers \<Rightarrow> real \<times> 'timers" where
  "NOOP_CLOCK_setTimeout random fn delay timers = (random, timers)"

definition NOOP_CLOCK_clearTimeout :: "'id \<Rightarrow> 'timers \<Rightarrow> 'timers" where
  "NOOP_CLOCK_clearTimeout i timers = timers"

text \<open>
  A JavaScript \<open>Map\<close> keeps its entries in insertion order: \<open>set\<close> replaces the value
  of a key that is present and appends a new key, \<open>delete\<close> removes the entry.
\<close>

fun Map_set :: "'k \<Rightarrow> 'v \<Rightarrow> ('k \<times> 'v) list \<Rightarrow> ('k \<times> 'v) list" where
  "Map_set k v [] = [(k, v)]"
| "Map_set k v ((k', v') # es) =
     (if k' = k then (k, v) # es else (k', v') # Map_set k v es)"

definition Map_delete :: "'k \<Rightarrow> ('k \<times> 'v) list \<Rightarrow> ('k \<times> 'v) list" where
  "Map_delete k es = filter (\<lambda>e. fst e \<noteq> k) es"

text \<open>
  \<open>Map\<close> objects live in \<open>mapHeap\<close>, a \<open>Map\<close> object being its index there.
  \<open>const scheduledEventsMap = new Map()\<close> is the first object the module creates.
\<close>

definition scheduledEventsMap :: nat where
  "scheduledEventsMap = 0"

definition loaded :: "world \<Rightarrow> bool" where
  "loaded w = (scheduledEventsMap < length (mapHeap w))"

definition heap_set :: "nat \<Rightarrow> string \<Rightarrow> ScheduledEventSnapshot \<Rightarrow> world \<Rightarrow> world" where
  "heap_set p k v w = w\<lparr>mapHeap := (mapHeap w)[p := Map_set k v (mapHeap w ! p)]\<rparr>"

definition heap_delete :: "nat \<Rightarrow> string \<Rightarrow> world \<Rightarrow> world" where
  "heap_delete p k w = w\<lparr>mapHeap := (mapHeap w)[p := Map_delete k (mapHeap w ! p)]\<rparr>"

definition heap_clear :: "nat \<Rightarrow> world \<Rightarrow> world" where
  "heap_clear p w = w\<lparr>mapHeap := (mapHeap w)[p := []]\<rparr>"

text \<open>
  \<open>createAlarmScheduler(...).schedule\<close>. \<open>src\<close> and \<open>tgt\<close> are the session ids of
  the two actor references, \<open>randomId\<close> what the default of the parameter \<open>id\<close>
  evaluates to, \<open>t1\<close>, \<open>t2\<close> and \<open>t3\<close> the three readings of \<open>Date.now()\<close> (snapshot,
  deadline, row). The promise of \<open>alarmManager.schedule\<close> is not awaited; with
  nothing else running it settles as the awaited call would, and its rejection
  removes the index entry again.
\<close>

definition scheduler_schedule ::
  "(json \<Rightarrow> string) \<Rightarrow> string \<Rightarrow> int \<Rightarrow> int \<Rightarrow> int
     \<Rightarrow> string \<Rightarrow> string \<Rightarrow> json \<Rightarrow> int \<Rightarrow> string option \<Rightarrow> world \<Rightarrow> world" where
  "scheduler_schedule stringify randomId t1 t2 t3 src tgt ev delay id_opt w =
     (let i = (case id_opt of None \<Rightarrow> randomId | Some x \<Rightarrow> x);
          scheduledEventId = src @ ''.'' @ i;
          snapshot = \<lparr>s_sourceSessionId = src, s_targetSessionId = tgt, s_event = ev,
                      s_delay = delay, s_id = i, s_startedAt = t1\<rparr>;
          w1 = heap_set scheduledEventsMap scheduledEventId snapshot w;
          alarmId = ''xstate-'' @ scheduledEventId
      in case schedule stringify t3
                \<lparr>o_id = alarmId, o_type = ''xstate-delay'', o_scheduledAt = t2 + delay,
                  o_repeatInterval = None,
                  o_payload = JObj [(''type'', JStr ''xstate-delay''),
                                    (''sourceSessionId'', JStr src),
                                    (''targetSessionId'', JStr tgt),
                                    (''event'', ev),
                                    (''scheduledEventId'', JStr scheduledEventId),
                                    (''alarmId'', JStr alarmId)]\<rparr> w1 of
           (Inl e, w2) \<Rightarrow> heap_delete scheduledEventsMap scheduledEventId w2
         | (Inr u, w2) \<Rightarrow> w2)"

definition scheduler_cancel :: "string \<Rightarrow> string \<Rightarrow> world \<Rightarrow> world" where
  "scheduler_cancel src i w =
     (let scheduledEventId = src @ ''.'' @ i
      in cancel (''xstate-'' @ scheduledEventId)
           (heap_delete scheduledEventsMap scheduledEventId w))"

text \<open>
  \<open>cancelAll\<close>. The loop removes the index entries and starts one
  \<open>alarmManager.cancel\<close> per entry without awaiting it, so the loop itself ends with
  the index changed and nothing else. The cancels then advance in step, each
  through the same awaits: every DELETE runs (in the order of the loop) before the
  first cancel compares \<open>currentAlarmId\<close> with its id, and every cancel compares
  before a rearm has written the field. The ids are the keys of one \<open>Map\<close>, so at
  most one of them is the armed id, and at most one rearm runs, after all the
  deletes.
\<close>

definition scheduler_cancelAll :: "string \<Rightarrow> world \<Rightarrow> world" where
  "scheduler_cancelAll sessionId w =
     (let eventsToCancel =
            map fst (filter (\<lambda>e. s_sourceSessionId (snd e) = sessionId)
                       (mapHeap w ! scheduledEventsMap));
          w1 = foldl (\<lambda>v scheduledEventId. heap_delete scheduledEventsMap scheduledEventId v)
                 w eventsToCancel;
          w2 = foldl (\<lambda>v scheduledEventId. storage_deleteAlarm (''xstate-'' @ scheduledEventId) v)
                 w1 eventsToCancel
      in if \<exists>scheduledEventId \<in> set eventsToCancel.
              currentAlarmId w2 = Some (''xstate-'' @ scheduledEventId)
         then rescheduleNextAlarm w2
         else w2)"

text \<open>
  The actor \<open>handleXStateAlarm\<close> is given: its \<open>system._relay\<close>, when it has one, and
  its \<open>send\<close>. Either may throw, and either may change the state.
\<close>

record actor =
  actor_relay :: "(json \<Rightarrow> world \<Rightarrow> outcome \<times> world) option"
  actor_send :: "json \<Rightarrow> world \<Rightarrow> outcome \<times> world"

text \<open>
  \<open>if (actor.system && actor.system._relay) ... else actor.send(event)\<close>: which of
  the two the event goes through.
\<close>

definition deliver :: "actor \<Rightarrow> json \<Rightarrow> world \<Rightarrow> outcome \<times> world" where
  "deliver act = (case actor_relay act of Some relay \<Rightarrow> relay | None \<Rightarrow> actor_send act)"

text \<open>
  \<open>handleXStateAlarm\<close>: the index entry is removed, then the event goes to the
  actor; what the actor throws is caught and logged.
\<close>

definition handleXStateAlarm :: "XStateAlarmData \<Rightarrow> actor \<Rightarrow> world \<Rightarrow> world" where
  "handleXStateAlarm alarmData act w =
     snd (deliver act (x_event alarmData)
            (heap_delete scheduledEventsMap (x_scheduledEventId alarmData) w))"

text \<open>\<open>getScheduledEvents\<close>: \<open>new Map(scheduledEventsMap)\<close> is a new object with the same entries.\<close>

definition getScheduledEvents :: "world \<Rightarrow> nat \<times> world" where
  "getScheduledEvents w =
     (length (mapHeap w),
      w\<lparr>mapHeap := mapHeap w @ [mapHeap w ! scheduledEventsMap]\<rparr>)"

text \<open>What a holder of a \<open>Map\<close> object can do to it.\<close>

datatype map_mutation =
    MapSet string ScheduledEventSnapshot
  | MapDelete string
  | MapClear

fun mutate_map :: "nat \<Rightarrow> map_mutation \<Rightarrow> world \<Rightarrow> world" where
  "mutate_map p (MapSet k v) w = heap_set p k v w"
| "mutate_map p (MapDelete k) w = heap_delete p k w"
| "mutate_map p MapClear w = heap_clear p w"

text \<open>\<open>scheduledEventId.split(".").pop()\<close>: what follows the last dot.\<close>

definition last_segment :: "string \<Rightarrow> string" where
  "last_segment s = rev (takeWhile (\<lambda>c. c \<noteq> CHR ''.'') (rev s))"

text \<open>
  The object \<open>restoreScheduledEvents\<close> stores for an alarm, \<open>now\<close> being the reading
  of \<open>Date.now()\<close> from which \<open>delay\<close> is computed.
\<close>

definition restored_snapshot :: "int \<Rightarrow> RestoredAlarm \<Rightarrow> ScheduledEventSnapshot" where
  "restored_snapshot now alarm =
     (let scheduledEventId = x_scheduledEventId (ra_payload alarm);
          delay = ra_scheduledAt alarm - now
      in \<lparr>s_sourceSessionId = x_sourceSessionId (ra_payload alarm),
           s_targetSessionId = x_targetSessionId (ra_payload alarm),
           s_event = x_event (ra_payload alarm),
           s_delay = delay,
           s_id = (if last_segment scheduledEventId = [] then scheduledEventId
                   else last_segment scheduledEventId),
           s_startedAt = ra_scheduledAt alarm - delay\<rparr>)"

text \<open>
  \<open>restoreScheduledEvents\<close>. \<open>Date.now()\<close> is read inside the loop: \<open>clock i\<close> is its
  reading in the iteration for the element at position \<open>i\<close>.
\<close>

fun restore_from :: "(nat \<Rightarrow> int) \<Rightarrow> nat \<Rightarrow> RestoredAlarm list \<Rightarrow> world \<Rightarrow> world" where
  "restore_from clock i [] w = w"
| "restore_from clock i (alarm # rest) w =
     (if x_type (ra_payload alarm) = ''xstate-delay''
      then (let delay = ra_scheduledAt alarm - clock i
            in if delay > 0
               then restore_from clock (Suc i) rest
                      (heap_set scheduledEventsMap (x_scheduledEventId (ra_payload alarm))
                         (restored_snapshot (clock i) alarm) w)
               else restore_from clock (Suc i) rest w)
      else restore_from clock (Suc i) rest w)"

definition restoreScheduledEvents :: "(nat \<Rightarrow> int) \<Rightarrow> RestoredAlarm list \<Rightarrow> world \<Rightarrow> world" where
  "restoreScheduledEvents clock alarms_arg w = restore_from clock 0 alarms_arg w"

section \<open>Notions used to state the properties of the drain\<close>

text \<open>
  \<open>recurring\<close> is the test \<open>if (alarm.repeatInterval)\<close>; \<open>statement_for\<close> is the
  statement the loop body sends for an alarm and \<open>result_of\<close> the record it pushes,
  both read off the two branches of that test.

  \<open>run_statement\<close> is what a statement does to the table, read off its SQL text:
  \<open>DELETE FROM alarms WHERE id = ?\<close> removes the rows stored under the id, and
  \<open>UPDATE alarms SET scheduled_at = ?, repeat_interval = ?, payload = ? WHERE id = ?\<close>
  rewrites these three columns of the rows stored under the id and leaves every
  other row as it is.

  \<open>chained w steps w'\<close> says that the steps follow one another from \<open>w\<close> to \<open>w'\<close>:
  the first starts in \<open>w\<close>, each next one starts in the state the handler of the
  one before left, and the handler of the last left \<open>w'\<close>. \<open>rows_under i w\<close> are the
  rows stored under the id \<open>i\<close>.
\<close>

definition recurring :: "Alarm \<Rightarrow> bool" where
  "recurring a = (case repeatInterval a of None \<Rightarrow> False | Some n \<Rightarrow> n \<noteq> 0)"

definition statement_for :: "int \<Rightarrow> Alarm \<Rightarrow> statement" where
  "statement_for now a =
     (case repeatInterval a of
        None \<Rightarrow> SqlDelete (a_id a)
      | Some n \<Rightarrow>
          if n \<noteq> 0
          then SqlUpdate \<lparr>o_id = a_id a, o_type = a_type a, o_scheduledAt = now + n,
                           o_repeatInterval = Some n, o_payload = a_payload a\<rparr>
          else SqlDelete (a_id a))"

definition result_of :: "Alarm \<Rightarrow> AlarmHandleResult" where
  "result_of a = \<lparr>h_id = a_id a, h_type = a_type a,
                   rescheduled = recurring a, deleted = (\<not> recurring a)\<rparr>"

fun run_statement ::
  "(json \<Rightarrow> string) \<Rightarrow> statement \<Rightarrow> AlarmRecord list \<Rightarrow> AlarmRecord list" where
  "run_statement stringify (SqlDelete i) table = filter (\<lambda>r. r_id r \<noteq> i) table"
| "run_statement stringify (SqlUpdate opts) table =
     map (\<lambda>r. if r_id r = o_id opts
               then r\<lparr>scheduled_at := o_scheduledAt opts,
                      repeat_interval := o_repeatInterval opts,
                      r_payload := Some (stringify (o_payload opts))\<rparr>
               else r) table"

fun chained :: "world \<Rightarrow> step list \<Rightarrow> world \<Rightarrow> bool" where
  "chained w [] w' = (w' = w)"
| "chained w (st # sts) w' = (st_before st = w \<and> chained (st_returned st) sts w')"

definition rows_under :: "string \<Rightarrow> world \<Rightarrow> AlarmRecord list" where
  "rows_under i w = filter (\<lambda>r. r_id r = i) (alarms w)"

section \<open>Notions used to state the properties of the scheduler\<close>

text \<open>
  \<open>restorable clock (i, alarm)\<close> is the pair of tests of \<open>restoreScheduledEvents\<close> for
  the element at position \<open>i\<close> (its payload type is \<open>xstate-delay\<close> and its deadline
  is after the clock reading of its iteration), \<open>restore_entry\<close> the \<open>set\<close> call made
  for such an element. \<open>with_map p m w\<close> is the state \<open>w\<close> with the entries \<open>m\<close> in the
  \<open>Map\<close> object \<open>p\<close>.
\<close>

definition restorable :: "(nat \<Rightarrow> int) \<Rightarrow> nat \<times> RestoredAlarm \<Rightarrow> bool" where
  "restorable clock ia =
     (x_type (ra_payload (snd ia)) = ''xstate-delay'' \<and> clock (fst ia) < ra_scheduledAt (snd ia))"

definition restore_entry ::
  "(nat \<Rightarrow> int) \<Rightarrow> (string \<times> ScheduledEventSnapshot) list \<Rightarrow> nat \<times> RestoredAlarm
     \<Rightarrow> (string \<times> ScheduledEventSnapshot) list" where
  "restore_entry clock m ia =
     Map_set (x_scheduledEventId (ra_payload (snd ia))) (restored_snapshot (clock (fst ia)) (snd ia)) m"

definition with_map :: "nat \<Rightarrow> (string \<times> ScheduledEventSnapshot) list \<Rightarrow> world \<Rightarrow> world" where
  "with_map p m w = w\<lparr>mapHeap := (mapHeap w)[p := m]\<rparr>"

section \<open>Properties of the storage and of rearming\<close>

lemma alarms_ensureInitialized [simp]: "alarms (ensureInitialized w) = alarms w"
  by (simp add: ensureInitialized_def)

lemma ensureInitialized_idem [simp]:
  "ensureInitialized (ensureInitialized w) = ensureInitialized w"
  by (simp add: ensureInitialized_def)

lemma volatile_ensureInitialized [simp]:
  "currentAlarmId (ensureInitialized w) = currentAlarmId w"
  "currentAlarmTime (ensureInitialized w) = currentAlarmTime w"
  "setAlarmCalls (ensureInitialized w) = setAlarmCalls w"
  "mapHeap (ensureInitialized w) = mapHeap w"
  by (simp_all add: ensureInitialized_def)

lemma rescheduleNextAlarm_idem:
  "rescheduleNextAlarm (rescheduleNextAlarm w) = rescheduleNextAlarm w"
  by (cases "sort_key scheduled_at (alarms w)")
     (simp_all add: rescheduleNextAlarm_def storage_getEarliestAlarm_def
        ensureInitialized_def)

lemma setAlarmCalls_rescheduleNextAlarm:
  "setAlarmCalls (rescheduleNextAlarm w) =
     setAlarmCalls w @
       (case fst (storage_getEarliestAlarm w) of
          None \<Rightarrow> []
        | Some e \<Rightarrow>
            if (currentAlarmId w, currentAlarmTime w) = (Some (r_id e), Some (scheduled_at e))
            then [] else [scheduled_at e])"
  by (cases "sort_key scheduled_at (alarms w)")
     (simp_all add: rescheduleNextAlarm_def storage_getEarliestAlarm_def
        ensureInitialized_def)

lemma rescheduleNextAlarm_empty:
  "alarms w = [] \<Longrightarrow>
     currentAlarmId (rescheduleNextAlarm w) = None \<and>
     currentAlarmTime (rescheduleNextAlarm w) = None \<and>
     setAlarmCalls (rescheduleNextAlarm w) = setAlarmCalls w"
  by (simp add: rescheduleNextAlarm_def storage_getEarliestAlarm_def)

text \<open>
  Claim C4. \<open>rescheduleNextAlarm\<close> calls the platform's \<open>setAlarm\<close> only when the
  earliest stored row's id and deadline differ from the volatile pair
  \<open>(currentAlarmId, currentAlarmTime)\<close>: the calls it adds are none or the earliest
  deadline, as the first conjunct says. A second call right after the first adds no
  call, so the two together add at most one. With an empty table both volatile fields
  are cleared and \<open>setAlarm\<close> is not called.
\<close>

theorem rearm_coalesces:
  "setAlarmCalls (rescheduleNextAlarm w) =
     setAlarmCalls w @
       (case fst (storage_getEarliestAlarm w) of
          None \<Rightarrow> []
        | Some e \<Rightarrow>
            if (currentAlarmId w, currentAlarmTime w) = (Some (r_id e), Some (scheduled_at e))
            then [] else [scheduled_at e])
   \<and> setAlarmCalls (rescheduleNextAlarm (rescheduleNextAlarm w)) =
       setAlarmCalls (rescheduleNextAlarm w)
   \<and> length (setAlarmCalls (rescheduleNextAlarm (rescheduleNextAlarm w)))
       \<le> Suc (length (setAlarmCalls w))
   \<and> (alarms w = [] \<longrightarrow>
        currentAlarmId (rescheduleNextAlarm w) = None \<and>
        currentAlarmTime (rescheduleNextAlarm w) = None \<and>
        setAlarmCalls (rescheduleNextAlarm w) = setAlarmCalls w)"
proof -
  have once: "length (setAlarmCalls (rescheduleNextAlarm w)) \<le> Suc (length (setAlarmCalls w))"
    by (simp add: setAlarmCalls_rescheduleNextAlarm split: option.split)
  show ?thesis
    using once rescheduleNextAlarm_empty [of w]
    by (simp add: rescheduleNextAlarm_idem setAlarmCalls_rescheduleNextAlarm [of w])
qed

theorem rearm_coalesces_witness:
  "alarms \<lparr>alarms = [], initialized = False,
           currentAlarmId = Some ''A'', currentAlarmTime = Some 5,
           setAlarmCalls = [5], mapHeap = [[]]\<rparr> = []
   \<and> getCurrentAlarm (rescheduleNextAlarm
        \<lparr>alarms = [], initialized = False,
          currentAlarmId = Some ''A'', currentAlarmTime = Some 5,
          setAlarmCalls = [5], mapHeap = [[]]\<rparr>) = (None, None)
   \<and> setAlarmCalls (rescheduleNextAlarm
        \<lparr>alarms = [], initialized = False,
          currentAlarmId = Some ''A'', currentAlarmTime = Some 5,
          setAlarmCalls = [5], mapHeap = [[]]\<rparr>) = [5]"
  using rearm_coalesces [of "\<lparr>alarms = [], initialized = False,
          currentAlarmId = Some ''A'', currentAlarmTime = Some 5,
          setAlarmCalls = [5], mapHeap = [[]]\<rparr>"]
  by (simp add: getCurrentAlarm_def rescheduleNextAlarm_def storage_getEarliestAlarm_def
        ensureInitialized_def)

lemma filter_key_single:
  "distinct (map f xs) \<Longrightarrow> r \<in> set xs \<Longrightarrow> filter (\<lambda>x. f x = f r) xs = [r]"
proof (induction xs)
  case Nil
  then show ?case by simp
next
  case (Cons x xs)
  show ?case
  proof (cases "x = r")
    case True
    with Cons.prems have "\<forall>y\<in>set xs. f y \<noteq> f r" by (metis distinct.simps(2) image_eqI list.simps(9) list.set_map)
    then have "filter (\<lambda>x. f x = f r) xs = []" by (simp add: filter_empty_conv)
    with True show ?thesis by simp
  next
    case False
    with Cons.prems have "r \<in> set xs" "f x \<noteq> f r" by auto
    with Cons show ?thesis by simp
  qed
qed

text \<open>
  Claim C5. \<open>schedule\<close> with the id of a stored row rejects with the engine's
  primary-key error: the table is left as it was (so that id still has exactly one
  row, the original one), and no rearm happens: the volatile pair and the calls to
  \<open>setAlarm\<close> are unchanged.
\<close>

theorem schedule_duplicate_id_rejected:
  assumes "primary_key w" and "r \<in> set (alarms w)" and "o_id opts = r_id r"
  shows "fst (schedule stringify t opts w) = Inl SqlConstraintPrimaryKey
       \<and> alarms (snd (schedule stringify t opts w)) = alarms w
       \<and> filter (\<lambda>x. r_id x = o_id opts) (alarms (snd (schedule stringify t opts w))) = [r]
       \<and> getCurrentAlarm (snd (schedule stringify t opts w)) = getCurrentAlarm w
       \<and> setAlarmCalls (snd (schedule stringify t opts w)) = setAlarmCalls w"
proof -
  from assms(2,3) have dup: "\<exists>x\<in>set (alarms w). r_id x = o_id opts" by auto
  then have run: "schedule stringify t opts w = (Inl SqlConstraintPrimaryKey, ensureInitialized w)"
    by (simp add: schedule_def storage_insertAlarm_def)
  from assms have one: "filter (\<lambda>x. r_id x = o_id opts) (alarms w) = [r]"
    by (simp add: primary_key_def filter_key_single)
  show ?thesis
    by (simp add: run one getCurrentAlarm_def)
qed

theorem schedule_duplicate_id_rejected_witness:
  "schedule (\<lambda>j. ''{}'') 7
     \<lparr>o_id = ''A'', o_type = ''custom'', o_scheduledAt = 20, o_repeatInterval = None,
       o_payload = JObj []\<rparr>
     \<lparr>alarms = [\<lparr>r_id = ''A'', r_type = ''custom'', scheduled_at = 10,
                 repeat_interval = None, r_payload = Some ''{}'', created_at = 1\<rparr>],
       initialized = True,
       currentAlarmId = Some ''A'', currentAlarmTime = Some 10,
       setAlarmCalls = [10], mapHeap = [[]]\<rparr>
   = (Inl SqlConstraintPrimaryKey,
      \<lparr>alarms = [\<lparr>r_id = ''A'', r_type = ''custom'', scheduled_at = 10,
                  repeat_interval = None, r_payload = Some ''{}'', created_at = 1\<rparr>],
        initialized = True,
        currentAlarmId = Some ''A'', currentAlarmTime = Some 10,
        setAlarmCalls = [10], mapHeap = [[]]\<rparr>)"
proof -
  let ?r = "\<lparr>r_id = ''A'', r_type = ''custom'', scheduled_at = 10,
             repeat_interval = None, r_payload = Some ''{}'', created_at = 1\<rparr>"
  let ?w = "\<lparr>alarms = [?r], initialized = True,
             currentAlarmId = Some ''A'', currentAlarmTime = Some 10,
             setAlarmCalls = [10], mapHeap = [[]]\<rparr>"
  let ?o = "\<lparr>o_id = ''A'', o_type = ''custom'', o_scheduledAt = 20, o_repeatInterval = None,
             o_payload = JObj []\<rparr>"
  have pk: "primary_key ?w" by (simp add: primary_key_def)
  have mem: "?r \<in> set (alarms ?w)" by simp
  have same: "o_id ?o = r_id ?r" by simp
  from schedule_duplicate_id_rejected [OF pk mem same, of "\<lambda>j. ''{}''" 7]
  have "fst (schedule (\<lambda>j. ''{}'') 7 ?o ?w) = Inl SqlConstraintPrimaryKey" by blast
  then show ?thesis
    by (simp add: schedule_def storage_insertAlarm_def ensureInitialized_def)
qed


section \<open>Properties of the drain\<close>

text \<open>
  The properties below are about a drain whose read of the due alarms returned:
  \<open>getDueAlarms parse now w = (Inr due, w1)\<close>, with \<open>due\<close> the alarms returned and
  \<open>w1\<close> the state at that point. The proofs use the loop and nothing of how the
  read came to its result.
\<close>

subsection \<open>The loop\<close>

lemma alarms_deleteAlarm [simp]:
  "alarms (deleteAlarm i w) = filter (\<lambda>r. r_id r \<noteq> i) (alarms w)"
  by (simp add: deleteAlarm_def storage_deleteAlarm_def)

lemma alarms_updateAlarm [simp]:
  "alarms (updateAlarm s opts w) =
     map (\<lambda>r. if r_id r = o_id opts
               then r\<lparr>scheduled_at := o_scheduledAt opts,
                      repeat_interval := o_repeatInterval opts,
                      r_payload := Some (s (o_payload opts))\<rparr>
               else r) (alarms w)"
  by (simp add: updateAlarm_def storage_updateAlarm_def)

lemma mutate_parts:
  "fst (mutate s now a w) = recurring a"
  "fst (snd (mutate s now a w)) = (\<not> recurring a)"
  "snd (snd (snd (mutate s now a w))) = statement_for now a"
  "alarms (fst (snd (snd (mutate s now a w)))) = run_statement s (statement_for now a) (alarms w)"
  by (simp_all add: mutate_def recurring_def statement_for_def Let_def split: option.split)

lemma invoke_parts:
  "fst (invoke h a w) = fst (h a w)"
  "fst (snd (invoke h a w)) = snd (h a w)"
  "snd (snd (invoke h a w)) =
     (case fst (h a w) of
        Resolved b \<Rightarrow> None
      | Rejected msg \<Rightarrow> Some (''Error handling alarm '' @ a_id a @ '':'', msg))"
  by (simp_all add: invoke_def split: prod.split outcome.split)

text \<open>One unfolding of the loop, in projections.\<close>

lemma drain_Cons:
  "fst (drain s now h (a # as) w)
     = result_of a # fst (drain s now h as (snd (h a (fst (snd (snd (mutate s now a w)))))))"
  "fst (snd (drain s now h (a # as) w))
     = fst (snd (drain s now h as (snd (h a (fst (snd (snd (mutate s now a w))))))))"
  "snd (snd (drain s now h (a # as) w))
     = \<lparr>st_alarm = a, st_before = w, st_statement = statement_for now a,
         st_received = fst (snd (snd (mutate s now a w))),
         st_outcome = fst (h a (fst (snd (snd (mutate s now a w))))),
         st_returned = snd (h a (fst (snd (snd (mutate s now a w))))),
         st_logged = (case fst (h a (fst (snd (snd (mutate s now a w))))) of
                        Resolved b \<Rightarrow> None
                      | Rejected msg \<Rightarrow> Some (''Error handling alarm '' @ a_id a @ '':'', msg))\<rparr>
       # snd (snd (drain s now h as (snd (h a (fst (snd (snd (mutate s now a w))))))))"
  by (simp_all add: case_prod_unfold mutate_parts invoke_parts result_of_def)

lemma fst_drain: "fst (drain s now h as w) = map result_of as"
  by (induction as arbitrary: w) (simp_all add: drain_Cons del: drain.simps(2))

lemma steps_alarms: "map st_alarm (snd (snd (drain s now h as w))) = as"
  by (induction as arbitrary: w) (simp_all add: drain_Cons del: drain.simps(2))

lemma steps_sound:
  "\<forall>st \<in> set (snd (snd (drain s now h as w))).
      st_statement st = statement_for now (st_alarm st)
    \<and> alarms (st_received st) = run_statement s (st_statement st) (alarms (st_before st))
    \<and> h (st_alarm st) (st_received st) = (st_outcome st, st_returned st)
    \<and> st_logged st =
        (case st_outcome st of
           Resolved b \<Rightarrow> None
         | Rejected msg \<Rightarrow> Some (''Error handling alarm '' @ a_id (st_alarm st) @ '':'', msg))"
  by (induction as arbitrary: w)
     (simp_all add: drain_Cons mutate_parts del: drain.simps(2) split: outcome.split)

lemma steps_chained:
  "chained w (snd (snd (drain s now h as w))) (fst (snd (drain s now h as w)))"
  by (induction as arbitrary: w) (simp_all add: drain_Cons del: drain.simps(2))

lemma table_after_drain:
  "(\<forall>st \<in> set (snd (snd (drain s now h as w))). alarms (st_returned st) = alarms (st_received st))
     \<Longrightarrow> alarms (fst (snd (drain s now h as w)))
           = foldl (\<lambda>table a. run_statement s (statement_for now a) table) (alarms w) as"
proof (induction as arbitrary: w)
  case Nil
  then show ?case by simp
next
  case (Cons a as)
  let ?w1 = "fst (snd (snd (mutate s now a w)))"
  let ?w2 = "snd (h a ?w1)"
  from Cons.prems have here: "alarms ?w2 = alarms ?w1"
    and rest: "\<forall>st \<in> set (snd (snd (drain s now h as ?w2))). alarms (st_returned st) = alarms (st_received st)"
    by (simp_all add: drain_Cons del: drain.simps(2))
  from Cons.IH [OF rest] here show ?case
    by (simp add: drain_Cons mutate_parts del: drain.simps(2))
qed


lemma alarms_rescheduleNextAlarm [simp]: "alarms (rescheduleNextAlarm w) = alarms w"
  by (cases "sort_key scheduled_at (alarms w)")
     (simp_all add: rescheduleNextAlarm_def storage_getEarliestAlarm_def)

lemma handleDueAlarms_read:
  assumes "getDueAlarms parse now w = (Inr due, w1)"
  shows "fst (handleDueAlarms parse stringify now handler w)
           = Inr (fst (drain stringify now handler due w1))"
    and "fst (snd (handleDueAlarms parse stringify now handler w))
           = rescheduleNextAlarm (fst (snd (drain stringify now handler due w1)))"
    and "snd (snd (handleDueAlarms parse stringify now handler w))
           = snd (snd (drain stringify now handler due w1))"
  using assms by (simp_all add: handleDueAlarms_def case_prod_unfold)

text \<open>
  Claim C3. For a drain whose read returned the alarms \<open>due\<close>, and any handler:
  \<^item> the drain returns one result record per alarm of \<open>due\<close>, in order, with the
    flags of the alarm's branch, whether the handler resolves or rejects;
  \<^item> the loop takes one step per alarm of \<open>due\<close>, in order;
  \<^item> in each step the statement is the DELETE (one-shot alarm) or the UPDATE
    (recurring alarm) of the branch, and the handler is called once, on a state
    whose table is the table the step started with after that statement: the
    mutation is in place when the handler runs;
  \<^item> a line is logged in a step exactly when the handler rejected there, and it
    carries the alarm's id and the error;
  \<^item> the steps are chained from the state at the read: each next step starts in the
    very state the handler before it left, after a rejection as after a
    resolution, so the loop undoes nothing and goes on to the remaining alarms;
    the state after the drain is the rearm of the state the last handler left;
  \<^item> when no handler invocation of the drain changes the table, the table after the
    drain is the table at the read with the statements of all due alarms applied in
    order: what was deleted or updated before a handler that threw stays so.
\<close>

theorem handler_rejection_isolated:
  assumes "getDueAlarms parse now w = (Inr due, w1)"
  shows "fst (handleDueAlarms parse stringify now handler w) = Inr (map result_of due)
       \<and> map st_alarm (snd (snd (handleDueAlarms parse stringify now handler w))) = due
       \<and> (\<forall>st \<in> set (snd (snd (handleDueAlarms parse stringify now handler w))).
              st_statement st = statement_for now (st_alarm st)
            \<and> alarms (st_received st)
                = run_statement stringify (st_statement st) (alarms (st_before st))
            \<and> handler (st_alarm st) (st_received st) = (st_outcome st, st_returned st)
            \<and> st_logged st =
                (case st_outcome st of
                   Resolved b \<Rightarrow> None
                 | Rejected msg \<Rightarrow>
                     Some (''Error handling alarm '' @ a_id (st_alarm st) @ '':'', msg)))
       \<and> (\<exists>w2. chained w1 (snd (snd (handleDueAlarms parse stringify now handler w))) w2
                \<and> fst (snd (handleDueAlarms parse stringify now handler w))
                    = rescheduleNextAlarm w2)
       \<and> ((\<forall>st \<in> set (snd (snd (handleDueAlarms parse stringify now handler w))).
               alarms (st_returned st) = alarms (st_received st))
            \<longrightarrow> alarms (fst (snd (handleDueAlarms parse stringify now handler w)))
                 = foldl (\<lambda>table a. run_statement stringify (statement_for now a) table)
                     (alarms w1) due)"
proof -
  note rd = handleDueAlarms_read [OF assms, of stringify handler]
  have res: "fst (handleDueAlarms parse stringify now handler w) = Inr (map result_of due)"
    by (simp only: rd fst_drain)
  have als: "map st_alarm (snd (snd (handleDueAlarms parse stringify now handler w))) = due"
    by (simp only: rd steps_alarms)
  have snd: "\<forall>st \<in> set (snd (snd (handleDueAlarms parse stringify now handler w))).
              st_statement st = statement_for now (st_alarm st)
            \<and> alarms (st_received st)
                = run_statement stringify (st_statement st) (alarms (st_before st))
            \<and> handler (st_alarm st) (st_received st) = (st_outcome st, st_returned st)
            \<and> st_logged st =
                (case st_outcome st of
                   Resolved b \<Rightarrow> None
                 | Rejected msg \<Rightarrow>
                     Some (''Error handling alarm '' @ a_id (st_alarm st) @ '':'', msg))"
    unfolding rd by (rule steps_sound)
  have chn: "\<exists>w2. chained w1 (snd (snd (handleDueAlarms parse stringify now handler w))) w2
                \<and> fst (snd (handleDueAlarms parse stringify now handler w))
                    = rescheduleNextAlarm w2"
    unfolding rd using steps_chained [of w1 stringify now handler due] by blast
  have tbl: "(\<forall>st \<in> set (snd (snd (handleDueAlarms parse stringify now handler w))).
               alarms (st_returned st) = alarms (st_received st))
            \<longrightarrow> alarms (fst (snd (handleDueAlarms parse stringify now handler w)))
                 = foldl (\<lambda>table a. run_statement stringify (statement_for now a) table)
                     (alarms w1) due"
    unfolding rd using table_after_drain [of stringify now handler due w1] by simp
  from res als snd chn tbl show ?thesis by blast
qed

text \<open>
  The sixth scenario of the specification with a recurring alarm added: \<open>A\<close>
  (one-shot, due at 1000), \<open>R\<close> (every 500, due at 1000) and \<open>B\<close> (one-shot, due at
  1001) are drained at 1001 by a handler that throws on \<open>A\<close>. Three records come
  back, \<open>A\<close> and \<open>B\<close> are deleted, \<open>R\<close> is stored with deadline 1501, and one line is
  logged, for \<open>A\<close>.
\<close>

theorem handler_rejection_isolated_witness:
  "fst (handleDueAlarms (\<lambda>s. if s = ''{}'' then Some (JObj []) else None) (\<lambda>j. ''{}'') 1001
         (\<lambda>a v. if a_id a = ''A'' then (Rejected ''boom'', v) else (Resolved True, v))
         \<lparr>alarms = [\<lparr>r_id = ''B'', r_type = ''custom'', scheduled_at = 1001,
                     repeat_interval = None, r_payload = Some ''{}'', created_at = 1\<rparr>,
                    \<lparr>r_id = ''A'', r_type = ''custom'', scheduled_at = 1000,
                     repeat_interval = None, r_payload = Some ''{}'', created_at = 2\<rparr>,
                    \<lparr>r_id = ''R'', r_type = ''cache-cleanup'', scheduled_at = 1000,
                     repeat_interval = Some 500, r_payload = None, created_at = 3\<rparr>],
           initialized = True,
           currentAlarmId = Some ''A'', currentAlarmTime = Some 1000,
           setAlarmCalls = [1000], mapHeap = [[]]\<rparr>)
     = Inr [\<lparr>h_id = ''A'', h_type = ''custom'', rescheduled = False, deleted = True\<rparr>,
            \<lparr>h_id = ''R'', h_type = ''cache-cleanup'', rescheduled = True, deleted = False\<rparr>,
            \<lparr>h_id = ''B'', h_type = ''custom'', rescheduled = False, deleted = True\<rparr>]
   \<and> alarms (fst (snd (handleDueAlarms (\<lambda>s. if s = ''{}'' then Some (JObj []) else None)
         (\<lambda>j. ''{}'') 1001
         (\<lambda>a v. if a_id a = ''A'' then (Rejected ''boom'', v) else (Resolved True, v))
         \<lparr>alarms = [\<lparr>r_id = ''B'', r_type = ''custom'', scheduled_at = 1001,
                     repeat_interval = None, r_payload = Some ''{}'', created_at = 1\<rparr>,
                    \<lparr>r_id = ''A'', r_type = ''custom'', scheduled_at = 1000,
                     repeat_interval = None, r_payload = Some ''{}'', created_at = 2\<rparr>,
                    \<lparr>r_id = ''R'', r_type = ''cache-cleanup'', scheduled_at = 1000,
                     repeat_interval = Some 500, r_payload = None, created_at = 3\<rparr>],
           initialized = True,
           currentAlarmId = Some ''A'', currentAlarmTime = Some 1000,
           setAlarmCalls = [1000], mapHeap = [[]]\<rparr>)))
     = [\<lparr>r_id = ''R'', r_type = ''cache-cleanup'', scheduled_at = 1501,
          repeat_interval = Some 500, r_payload = Some ''{}'', created_at = 3\<rparr>]
   \<and> map st_logged (snd (snd (handleDueAlarms (\<lambda>s. if s = ''{}'' then Some (JObj []) else None)
         (\<lambda>j. ''{}'') 1001
         (\<lambda>a v. if a_id a = ''A'' then (Rejected ''boom'', v) else (Resolved True, v))
         \<lparr>alarms = [\<lparr>r_id = ''B'', r_type = ''custom'', scheduled_at = 1001,
                     repeat_interval = None, r_payload = Some ''{}'', created_at = 1\<rparr>,
                    \<lparr>r_id = ''A'', r_type = ''custom'', scheduled_at = 1000,
                     repeat_interval = None, r_payload = Some ''{}'', created_at = 2\<rparr>,
                    \<lparr>r_id = ''R'', r_type = ''cache-cleanup'', scheduled_at = 1000,
                     repeat_interval = Some 500, r_payload = None, created_at = 3\<rparr>],
           initialized = True,
           currentAlarmId = Some ''A'', currentAlarmTime = Some 1000,
           setAlarmCalls = [1000], mapHeap = [[]]\<rparr>)))
     = [Some (''Error handling alarm A:'', ''boom''), None, None]"
proof -
  let ?parse = "\<lambda>s. if s = ''{}'' then Some (JObj []) else None"
  let ?h = "\<lambda>a v. if a_id a = ''A'' then (Rejected ''boom'', v) else (Resolved True, v :: world)"
  let ?w = "\<lparr>alarms = [\<lparr>r_id = ''B'', r_type = ''custom'', scheduled_at = 1001,
                     repeat_interval = None, r_payload = Some ''{}'', created_at = 1\<rparr>,
                    \<lparr>r_id = ''A'', r_type = ''custom'', scheduled_at = 1000,
                     repeat_interval = None, r_payload = Some ''{}'', created_at = 2\<rparr>,
                    \<lparr>r_id = ''R'', r_type = ''cache-cleanup'', scheduled_at = 1000,
                     repeat_interval = Some 500, r_payload = None, created_at = 3\<rparr>],
           initialized = True,
           currentAlarmId = Some ''A'', currentAlarmTime = Some 1000,
           setAlarmCalls = [1000], mapHeap = [[]]\<rparr>"
  let ?due = "[\<lparr>a_id = ''A'', a_type = ''custom'', scheduledAt = 1000,
                    repeatInterval = None, a_payload = JObj [], createdAt = 2\<rparr>,
               \<lparr>a_id = ''R'', a_type = ''cache-cleanup'', scheduledAt = 1000,
                    repeatInterval = Some 500, a_payload = JObj [], createdAt = 3\<rparr>,
               \<lparr>a_id = ''B'', a_type = ''custom'', scheduledAt = 1001,
                    repeatInterval = None, a_payload = JObj [], createdAt = 1\<rparr>]"
  have due: "getDueAlarms ?parse 1001 ?w = (Inr ?due, ?w)"
    by (simp add: getDueAlarms_def storage_getDueAlarms_def ensureInitialized_def
          parseAlarmRecord_def)
  have inert: "\<forall>st \<in> set (snd (snd (handleDueAlarms ?parse (\<lambda>j. ''{}'') 1001 ?h ?w))).
                 alarms (st_returned st) = alarms (st_received st)"
    by (simp add: handleDueAlarms_def getDueAlarms_def storage_getDueAlarms_def
          parseAlarmRecord_def mutate_def invoke_def deleteAlarm_def updateAlarm_def
          storage_deleteAlarm_def storage_updateAlarm_def ensureInitialized_def)
  from handler_rejection_isolated [OF due, of "\<lambda>j. ''{}''" ?h] inert
  have "fst (handleDueAlarms ?parse (\<lambda>j. ''{}'') 1001 ?h ?w) = Inr (map result_of ?due)
      \<and> alarms (fst (snd (handleDueAlarms ?parse (\<lambda>j. ''{}'') 1001 ?h ?w)))
          = foldl (\<lambda>table a. run_statement (\<lambda>j. ''{}'') (statement_for 1001 a) table)
              (alarms ?w) ?due"
    by blast
  then have "fst (handleDueAlarms ?parse (\<lambda>j. ''{}'') 1001 ?h ?w)
        = Inr [\<lparr>h_id = ''A'', h_type = ''custom'', rescheduled = False, deleted = True\<rparr>,
            \<lparr>h_id = ''R'', h_type = ''cache-cleanup'', rescheduled = True, deleted = False\<rparr>,
            \<lparr>h_id = ''B'', h_type = ''custom'', rescheduled = False, deleted = True\<rparr>]
      \<and> alarms (fst (snd (handleDueAlarms ?parse (\<lambda>j. ''{}'') 1001 ?h ?w)))
          = [\<lparr>r_id = ''R'', r_type = ''cache-cleanup'', scheduled_at = 1501,
               repeat_interval = Some 500, r_payload = Some ''{}'', created_at = 3\<rparr>]"
    by (simp add: result_of_def recurring_def statement_for_def)
  moreover
  have "map st_logged (snd (snd (handleDueAlarms ?parse (\<lambda>j. ''{}'') 1001 ?h ?w)))
          = [Some (''Error handling alarm A:'', ''boom''), None, None]"
    by (simp add: handleDueAlarms_def getDueAlarms_def storage_getDueAlarms_def
          parseAlarmRecord_def mutate_def invoke_def deleteAlarm_def updateAlarm_def
          storage_deleteAlarm_def storage_updateAlarm_def ensureInitialized_def)
  ultimately show ?thesis by blast
qed


subsection \<open>Parsing the rows the read returned\<close>

lemma parseAlarmRecord_fields:
  "parseAlarmRecord parse r = Inr a \<Longrightarrow>
     a_id a = r_id r \<and> a_type a = r_type r \<and> scheduledAt a = scheduled_at r \<and>
     repeatInterval a = repeat_interval r \<and> createdAt a = created_at r"
  by (auto simp: parseAlarmRecord_def split: option.splits if_splits)

lemma parseAlarmRecord_empty_payload:
  "r_payload r = None \<or> r_payload r = Some [] \<Longrightarrow>
     parseAlarmRecord parse r
       = Inr \<lparr>a_id = r_id r, a_type = r_type r, scheduledAt = scheduled_at r,
              repeatInterval = repeat_interval r, a_payload = JObj [],
              createdAt = created_at r\<rparr>"
  by (auto simp: parseAlarmRecord_def)

lemma map_parseAlarmRecord_error:
  "map_parseAlarmRecord parse rs = Inl e \<Longrightarrow> e = JsonSyntaxError"
proof (induction rs)
  case Nil
  then show ?case by simp
next
  case (Cons r rs)
  then show ?case
    by (auto simp: parseAlarmRecord_def split: sum.splits option.splits if_splits)
qed

lemma map_parseAlarmRecord_fails:
  "r \<in> set rs \<Longrightarrow> parseAlarmRecord parse r = Inl e \<Longrightarrow>
     map_parseAlarmRecord parse rs = Inl JsonSyntaxError"
proof (induction rs)
  case Nil
  then show ?case by simp
next
  case (Cons x rs)
  then show ?case
    by (auto simp: parseAlarmRecord_def split: sum.splits option.splits if_splits
             dest: map_parseAlarmRecord_error)
qed

text \<open>
  Claim C7, as amended, stated for the rows the read returned. When one of the rows
  that \<open>storage.getDueAlarms\<close> returned holds in its payload column a non-empty
  string that \<open>JSON.parse\<close> rejects, \<open>handleDueAlarms\<close> rejects with the syntax error
  before the loop: the loop takes no step (no row is deleted or updated, no handler
  is called, nothing is logged), the table is as it was, the armed alarm is as it
  was and \<open>setAlarm\<close> is not called. The alarm is never delivered. (An empty string
  in the column is not parsed: it is read as the empty object, as
  \<open>parseAlarmRecord_empty_payload\<close> says.)
\<close>

theorem corrupt_payload_aborts_drain:
  assumes "storage_getDueAlarms now w = (rows, w1)" and "r \<in> set rows"
    and "r_payload r = Some s" and "s \<noteq> []" and "parse s = None"
  shows "handleDueAlarms parse stringify now handler w = (Inl JsonSyntaxError, w1, [])
       \<and> alarms w1 = alarms w
       \<and> getCurrentAlarm w1 = getCurrentAlarm w
       \<and> setAlarmCalls w1 = setAlarmCalls w"
proof -
  from assms(3-5) have bad: "parseAlarmRecord parse r = Inl JsonSyntaxError"
    by (simp add: parseAlarmRecord_def)
  from map_parseAlarmRecord_fails [OF assms(2) bad] assms(1)
  have "getDueAlarms parse now w = (Inl JsonSyntaxError, w1)"
    by (simp add: getDueAlarms_def)
  moreover from assms(1) have "w1 = ensureInitialized w"
    by (auto simp: storage_getDueAlarms_def)
  ultimately show ?thesis
    by (simp add: handleDueAlarms_def getCurrentAlarm_def)
qed

text \<open>
  The claim as stated (the corrupt row is logged and deleted, the drain does not
  fail) fails on a single due row whose payload is \<open>{\<close>: the drain rejects, the
  row is still stored and the loop has taken no step.
\<close>

theorem corrupt_payload_counterexample:
  "handleDueAlarms (\<lambda>s. if s = ''{}'' then Some (JObj []) else None) (\<lambda>j. ''{}'') 1000
     (\<lambda>a v. (Resolved True, v))
     \<lparr>alarms = [\<lparr>r_id = ''A'', r_type = ''custom'', scheduled_at = 1000,
                 repeat_interval = None, r_payload = Some ''{'', created_at = 0\<rparr>],
       initialized = True,
       currentAlarmId = Some ''A'', currentAlarmTime = Some 1000,
       setAlarmCalls = [1000], mapHeap = [[]]\<rparr>
   = (Inl JsonSyntaxError,
      \<lparr>alarms = [\<lparr>r_id = ''A'', r_type = ''custom'', scheduled_at = 1000,
                 repeat_interval = None, r_payload = Some ''{'', created_at = 0\<rparr>],
       initialized = True,
       currentAlarmId = Some ''A'', currentAlarmTime = Some 1000,
       setAlarmCalls = [1000], mapHeap = [[]]\<rparr>,
      [])"
  by (simp add: handleDueAlarms_def getDueAlarms_def storage_getDueAlarms_def
        parseAlarmRecord_def ensureInitialized_def)

theorem corrupt_payload_aborts_drain_witness:
  "handleDueAlarms (\<lambda>s. if s = ''{}'' then Some (JObj []) else None) (\<lambda>j. ''{}'') 2000
     (\<lambda>a v. (Resolved True, v))
     \<lparr>alarms = [\<lparr>r_id = ''B'', r_type = ''custom'', scheduled_at = 500,
                 repeat_interval = None, r_payload = Some ''{}'', created_at = 0\<rparr>,
                \<lparr>r_id = ''A'', r_type = ''custom'', scheduled_at = 1000,
                 repeat_interval = None, r_payload = Some ''not json'', created_at = 0\<rparr>],
       initialized = True,
       currentAlarmId = Some ''B'', currentAlarmTime = Some 500,
       setAlarmCalls = [500], mapHeap = [[]]\<rparr>
   = (Inl JsonSyntaxError,
      \<lparr>alarms = [\<lparr>r_id = ''B'', r_type = ''custom'', scheduled_at = 500,
                 repeat_interval = None, r_payload = Some ''{}'', created_at = 0\<rparr>,
                \<lparr>r_id = ''A'', r_type = ''custom'', scheduled_at = 1000,
                 repeat_interval = None, r_payload = Some ''not json'', created_at = 0\<rparr>],
       initialized = True,
       currentAlarmId = Some ''B'', currentAlarmTime = Some 500,
       setAlarmCalls = [500], mapHeap = [[]]\<rparr>,
      [])"
proof -
  let ?parse = "\<lambda>s. if s = ''{}'' then Some (JObj []) else None"
  let ?b = "\<lparr>r_id = ''B'', r_type = ''custom'', scheduled_at = 500,
                 repeat_interval = None, r_payload = Some ''{}'', created_at = 0\<rparr>"
  let ?r = "\<lparr>r_id = ''A'', r_type = ''custom'', scheduled_at = 1000,
                 repeat_interval = None, r_payload = Some ''not json'', created_at = 0\<rparr>"
  let ?w = "\<lparr>alarms = [?b, ?r],
       initialized = True,
       currentAlarmId = Some ''B'', currentAlarmTime = Some 500,
       setAlarmCalls = [500], mapHeap = [[]]\<rparr>"
  have rd: "storage_getDueAlarms 2000 ?w = ([?b, ?r], ?w)"
    by (simp add: storage_getDueAlarms_def ensureInitialized_def)
  have mem: "?r \<in> set [?b, ?r]" by simp
  have pl: "r_payload ?r = Some ''not json''" by simp
  have ne: "''not json'' \<noteq> []" by simp
  have bad: "?parse ''not json'' = None" by simp
  from corrupt_payload_aborts_drain [where r = ?r and w = ?w and now = 2000
      and s = "''not json''" and parse = ?parse and stringify = "\<lambda>j. ''{}''"
      and handler = "\<lambda>a v. (Resolved True, v)", OF rd mem pl ne bad]
  show ?thesis by blast
qed

subsection \<open>The ids of the alarms returned\<close>

text \<open>
  Parsing keeps the ids of the rows, and the SELECT returns every row at most once:
  with the primary key of the table, no two alarms returned share an id.
\<close>

lemma distinct_map_sort_key:
  "distinct (map g (sort_key f xs)) = distinct (map g xs)"
  by (simp add: distinct_map)

lemma map_parseAlarmRecord_ids:
  "map_parseAlarmRecord parse rs = Inr as \<Longrightarrow> map a_id as = map r_id rs"
proof (induction rs arbitrary: as)
  case Nil
  then show ?case by simp
next
  case (Cons r rs)
  then show ?case
    by (auto split: sum.splits dest: parseAlarmRecord_fields)
qed

lemma due_distinct:
  assumes "getDueAlarms parse now w = (Inr due, w1)" and "primary_key w"
  shows "distinct (map a_id due)"
proof -
  let ?rows = "sort_key scheduled_at (filter (\<lambda>r. scheduled_at r \<le> now) (alarms w))"
  from assms(1) have "map_parseAlarmRecord parse ?rows = Inr due"
    by (auto simp: getDueAlarms_def storage_getDueAlarms_def)
  then have "map a_id due = map r_id ?rows" by (rule map_parseAlarmRecord_ids)
  moreover from assms(2) have "distinct (map r_id ?rows)"
    by (simp add: primary_key_def distinct_map_sort_key distinct_map_filter)
  ultimately show ?thesis by simp
qed

subsection \<open>The rows stored under one id\<close>

lemma filter_id_update_other:
  "i \<noteq> x \<Longrightarrow>
     filter (\<lambda>r. r_id r = x)
       (map (\<lambda>r. if r_id r = i then r\<lparr>scheduled_at := t, repeat_interval := n, r_payload := p\<rparr> else r) xs)
     = filter (\<lambda>r. r_id r = x) xs"
  by (induction xs) simp_all

lemma filter_id_update_same:
  "filter (\<lambda>r. r_id r = x)
       (map (\<lambda>r. if r_id r = x then r\<lparr>scheduled_at := t, repeat_interval := n, r_payload := p\<rparr> else r) xs)
     = map (\<lambda>r. r\<lparr>scheduled_at := t, repeat_interval := n, r_payload := p\<rparr>)
         (filter (\<lambda>r. r_id r = x) xs)"
  by (induction xs) simp_all

lemma filter_id_delete_other:
  "i \<noteq> x \<Longrightarrow>
     filter (\<lambda>r. r_id r \<noteq> i \<and> r_id r = x) xs = filter (\<lambda>r. r_id r = x) xs"
  by (rule filter_cong) auto

lemma filter_id_delete_same:
  "filter (\<lambda>r. r_id r \<noteq> x \<and> r_id r = x) xs = []"
  by (simp add: filter_empty_conv)

lemma mutate_other_rows:
  assumes "a_id b \<noteq> x"
  shows "rows_under x (fst (snd (snd (mutate s now b v)))) = rows_under x v"
  using assms
  by (simp add: rows_under_def mutate_def Let_def filter_id_update_other filter_id_delete_other
        split: option.split)

lemma mutate_recurring_rows:
  assumes "repeatInterval a = Some n" and "n \<noteq> 0"
  shows "rows_under (a_id a) (fst (snd (snd (mutate s now a v))))
           = map (\<lambda>r. r\<lparr>scheduled_at := now + n, repeat_interval := Some n,
                         r_payload := Some (s (a_payload a))\<rparr>)
               (rows_under (a_id a) v)"
  using assms
  by (simp add: rows_under_def mutate_def Let_def filter_id_update_same)

lemma mutate_one_shot_rows:
  assumes "repeatInterval a = None"
  shows "alarms (fst (snd (snd (mutate s now a v)))) = filter (\<lambda>r. r_id r \<noteq> a_id a) (alarms v)"
    and "rows_under (a_id a) (fst (snd (snd (mutate s now a v)))) = []"
  using assms
  by (simp_all add: rows_under_def mutate_def filter_id_delete_same)

lemma mutate_stays_absent:
  assumes "rows_under x v = []"
  shows "rows_under x (fst (snd (snd (mutate s now b v)))) = []"
proof (cases "a_id b = x")
  case False
  with assms show ?thesis by (simp add: mutate_other_rows)
next
  case True
  with assms show ?thesis
    by (simp add: rows_under_def mutate_def Let_def filter_id_update_same
          filter_id_delete_same split: option.split)
qed

text \<open>The step of the loop taken for an alarm of the list, when ids are not repeated.\<close>

lemma step_for:
  assumes "distinct (map a_id as)" and "a \<in> set as"
  shows "\<exists>st. filter (\<lambda>x. a_id (st_alarm x) = a_id a) (snd (snd (drain s now h as w))) = [st]
            \<and> st \<in> set (snd (snd (drain s now h as w))) \<and> st_alarm st = a"
proof -
  let ?steps = "snd (snd (drain s now h as w))"
  have al: "map st_alarm ?steps = as" by (rule steps_alarms)
  with assms(2) obtain st where st: "st \<in> set ?steps" "st_alarm st = a"
    by (metis (no_types, lifting) imageE list.set_map)
  from al assms(1) have "distinct (map (\<lambda>x. a_id (st_alarm x)) ?steps)"
    by (metis (no_types, lifting) map_map comp_def map_eq_conv)
  from filter_key_single [OF this st(1)] st show ?thesis by auto
qed

lemma results_for:
  assumes "distinct (map a_id as)" and "a \<in> set as"
  shows "filter (\<lambda>x. h_id x = a_id a) (map result_of as) = [result_of a]"
proof -
  have "filter (\<lambda>x. h_id x = a_id a) (map result_of as)
          = map result_of (filter (\<lambda>b. a_id b = a_id a) as)"
    by (simp add: filter_map comp_def result_of_def)
  with filter_key_single [OF assms] show ?thesis by simp
qed

subsection \<open>One-shot alarms\<close>

lemma drain_stays_absent:
  "rows_under x w = [] \<Longrightarrow>
   (\<forall>st \<in> set (snd (snd (drain s now h as w))).
       rows_under x (st_received st) = [] \<longrightarrow> rows_under x (st_returned st) = []) \<Longrightarrow>
   rows_under x (fst (snd (drain s now h as w))) = []"
proof (induction as arbitrary: w)
  case Nil
  then show ?case by simp
next
  case (Cons b as)
  let ?w1 = "fst (snd (snd (mutate s now b w)))"
  let ?w2 = "snd (h b ?w1)"
  from Cons.prems(1) have "rows_under x ?w1 = []" by (rule mutate_stays_absent)
  with Cons.prems(2) have here: "rows_under x ?w2 = []"
    by (simp add: drain_Cons del: drain.simps(2))
  from Cons.prems(2)
  have rest: "\<forall>st \<in> set (snd (snd (drain s now h as ?w2))).
       rows_under x (st_received st) = [] \<longrightarrow> rows_under x (st_returned st) = []"
    by (simp add: drain_Cons del: drain.simps(2))
  from Cons.IH [OF here rest] show ?case
    by (simp add: drain_Cons del: drain.simps(2))
qed

lemma drain_one_shot_absent:
  assumes "repeatInterval a = None"
  shows "a \<in> set as \<Longrightarrow>
   (\<forall>st \<in> set (snd (snd (drain s now h as w))).
       rows_under (a_id a) (st_received st) = []
         \<longrightarrow> rows_under (a_id a) (st_returned st) = []) \<Longrightarrow>
   rows_under (a_id a) (fst (snd (drain s now h as w))) = []"
proof (induction as arbitrary: w)
  case Nil
  then show ?case by simp
next
  case (Cons b as)
  let ?w1 = "fst (snd (snd (mutate s now b w)))"
  let ?w2 = "snd (h b ?w1)"
  from Cons.prems(2)
  have head: "rows_under (a_id a) ?w1 = [] \<longrightarrow> rows_under (a_id a) ?w2 = []"
    and rest: "\<forall>st \<in> set (snd (snd (drain s now h as ?w2))).
       rows_under (a_id a) (st_received st) = []
         \<longrightarrow> rows_under (a_id a) (st_returned st) = []"
    by (simp_all add: drain_Cons del: drain.simps(2))
  show ?case
  proof (cases "b = a")
    case True
    with assms have "rows_under (a_id a) ?w1 = []" by (simp add: mutate_one_shot_rows)
    with head have "rows_under (a_id a) ?w2 = []" by simp
    from drain_stays_absent [OF this rest] show ?thesis
      by (simp add: drain_Cons del: drain.simps(2))
  next
    case False
    with Cons.prems(1) have "a \<in> set as" by simp
    from Cons.IH [OF this rest] show ?thesis
      by (simp add: drain_Cons del: drain.simps(2))
  qed
qed

text \<open>
  Claim C1, as amended, stated for the alarms the read returned. Let the read of a
  drain entered at \<open>now\<close> return \<open>due\<close>, no two alarms of \<open>due\<close> sharing an id, and
  let \<open>a\<close> be an alarm of \<open>due\<close> without \<open>repeatInterval\<close>. Then
  \<^item> the loop takes exactly one step for the id of \<open>a\<close>; its statement is the DELETE
    for that id; the handler is called in that step, for \<open>a\<close>, on a state whose table
    is the table the step started with less the rows under the id, so that no row
    is stored under the id when the handler runs;
  \<^item> the returned vector holds exactly one record for the id, and it is
    \<open>{id, type, rescheduled: false, deleted: true}\<close>;
  \<^item> after the drain no row is stored under the id, provided no handler invocation
    of this drain that received a table without a row under the id left a table
    with one.
\<close>

theorem one_shot_drained:
  assumes rd: "getDueAlarms parse now w = (Inr due, w1)"
    and dist: "distinct (map a_id due)"
    and a: "a \<in> set due" "repeatInterval a = None"
  shows "(\<exists>st. filter (\<lambda>x. a_id (st_alarm x) = a_id a)
                 (snd (snd (handleDueAlarms parse stringify now handler w))) = [st]
            \<and> st_alarm st = a
            \<and> st_statement st = SqlDelete (a_id a)
            \<and> alarms (st_received st)
                = filter (\<lambda>r. r_id r \<noteq> a_id a) (alarms (st_before st))
            \<and> rows_under (a_id a) (st_received st) = []
            \<and> handler a (st_received st) = (st_outcome st, st_returned st))
       \<and> (\<exists>res. fst (handleDueAlarms parse stringify now handler w) = Inr res
            \<and> filter (\<lambda>x. h_id x = a_id a) res
                = [\<lparr>h_id = a_id a, h_type = a_type a, rescheduled = False, deleted = True\<rparr>])
       \<and> ((\<forall>x \<in> set (snd (snd (handleDueAlarms parse stringify now handler w))).
               rows_under (a_id a) (st_received x) = []
                 \<longrightarrow> rows_under (a_id a) (st_returned x) = [])
            \<longrightarrow> rows_under (a_id a) (fst (snd (handleDueAlarms parse stringify now handler w)))
                  = [])"
proof -
  note hd = handleDueAlarms_read [OF rd, of stringify handler]
  let ?steps = "snd (snd (drain stringify now handler due w1))"
  from a(2) have one: "\<not> recurring a" and stm: "statement_for now a = SqlDelete (a_id a)"
    by (simp_all add: recurring_def statement_for_def)
  from step_for [OF dist a(1), of stringify now handler w1] obtain st where
    st: "filter (\<lambda>x. a_id (st_alarm x) = a_id a) ?steps = [st]" "st \<in> set ?steps" "st_alarm st = a"
    by blast
  from steps_sound [of stringify now handler due w1] st(2,3) stm
  have snd: "st_statement st = SqlDelete (a_id a)"
    "alarms (st_received st) = run_statement stringify (st_statement st) (alarms (st_before st))"
    "handler a (st_received st) = (st_outcome st, st_returned st)"
    by auto
  from snd(1,2) have del: "alarms (st_received st)
                = filter (\<lambda>r. r_id r \<noteq> a_id a) (alarms (st_before st))"
    by simp
  then have gone: "rows_under (a_id a) (st_received st) = []"
    by (simp add: rows_under_def filter_id_delete_same)
  have c1: "\<exists>st. filter (\<lambda>x. a_id (st_alarm x) = a_id a)
                 (snd (snd (handleDueAlarms parse stringify now handler w))) = [st]
            \<and> st_alarm st = a
            \<and> st_statement st = SqlDelete (a_id a)
            \<and> alarms (st_received st)
                = filter (\<lambda>r. r_id r \<noteq> a_id a) (alarms (st_before st))
            \<and> rows_under (a_id a) (st_received st) = []
            \<and> handler a (st_received st) = (st_outcome st, st_returned st)"
    unfolding hd using st(1,3) snd(1,3) del gone by blast
  have c2: "\<exists>res. fst (handleDueAlarms parse stringify now handler w) = Inr res
            \<and> filter (\<lambda>x. h_id x = a_id a) res
                = [\<lparr>h_id = a_id a, h_type = a_type a, rescheduled = False, deleted = True\<rparr>]"
    unfolding hd fst_drain using results_for [OF dist a(1)] one
    by (simp add: result_of_def)
  have c3: "(\<forall>x \<in> set (snd (snd (handleDueAlarms parse stringify now handler w))).
               rows_under (a_id a) (st_received x) = []
                 \<longrightarrow> rows_under (a_id a) (st_returned x) = [])
            \<longrightarrow> rows_under (a_id a) (fst (snd (handleDueAlarms parse stringify now handler w)))
                  = []"
    unfolding hd
    using drain_one_shot_absent [OF a(2) a(1), of stringify now handler w1]
    by (simp add: rows_under_def)
  from c1 c2 c3 show ?thesis by blast
qed

text \<open>
  A one-shot alarm \<open>A\<close> and a recurring alarm \<open>R\<close>, both due, drained at 1000 by a
  handler that leaves the state alone.
\<close>

theorem one_shot_drained_witness:
  "fst (handleDueAlarms (\<lambda>s. if s = ''{}'' then Some (JObj []) else None) (\<lambda>j. ''{}'') 1000
     (\<lambda>a v. (Resolved True, v))
     \<lparr>alarms = [\<lparr>r_id = ''A'', r_type = ''xstate-delay'', scheduled_at = 1000,
                 repeat_interval = None, r_payload = Some ''{}'', created_at = 0\<rparr>,
                \<lparr>r_id = ''R'', r_type = ''cache-cleanup'', scheduled_at = 900,
                 repeat_interval = Some 500, r_payload = Some ''{}'', created_at = 0\<rparr>],
       initialized = False,
       currentAlarmId = Some ''R'', currentAlarmTime = Some 900,
       setAlarmCalls = [900], mapHeap = [[]]\<rparr>)
   = Inr [\<lparr>h_id = ''R'', h_type = ''cache-cleanup'', rescheduled = True, deleted = False\<rparr>,
          \<lparr>h_id = ''A'', h_type = ''xstate-delay'', rescheduled = False, deleted = True\<rparr>]
   \<and> fst (snd (handleDueAlarms (\<lambda>s. if s = ''{}'' then Some (JObj []) else None)
       (\<lambda>j. ''{}'') 1000 (\<lambda>a v. (Resolved True, v))
     \<lparr>alarms = [\<lparr>r_id = ''A'', r_type = ''xstate-delay'', scheduled_at = 1000,
                 repeat_interval = None, r_payload = Some ''{}'', created_at = 0\<rparr>,
                \<lparr>r_id = ''R'', r_type = ''cache-cleanup'', scheduled_at = 900,
                 repeat_interval = Some 500, r_payload = Some ''{}'', created_at = 0\<rparr>],
       initialized = False,
       currentAlarmId = Some ''R'', currentAlarmTime = Some 900,
       setAlarmCalls = [900], mapHeap = [[]]\<rparr>))
   = \<lparr>alarms = [\<lparr>r_id = ''R'', r_type = ''cache-cleanup'', scheduled_at = 1500,
                 repeat_interval = Some 500, r_payload = Some ''{}'', created_at = 0\<rparr>],
       initialized = True,
       currentAlarmId = Some ''R'', currentAlarmTime = Some 1500,
       setAlarmCalls = [900, 1500], mapHeap = [[]]\<rparr>
   \<and> rows_under ''A'' (fst (snd (handleDueAlarms (\<lambda>s. if s = ''{}'' then Some (JObj []) else None)
       (\<lambda>j. ''{}'') 1000 (\<lambda>a v. (Resolved True, v))
     \<lparr>alarms = [\<lparr>r_id = ''A'', r_type = ''xstate-delay'', scheduled_at = 1000,
                 repeat_interval = None, r_payload = Some ''{}'', created_at = 0\<rparr>,
                \<lparr>r_id = ''R'', r_type = ''cache-cleanup'', scheduled_at = 900,
                 repeat_interval = Some 500, r_payload = Some ''{}'', created_at = 0\<rparr>],
       initialized = False,
       currentAlarmId = Some ''R'', currentAlarmTime = Some 900,
       setAlarmCalls = [900], mapHeap = [[]]\<rparr>))) = []"
proof -
  let ?parse = "\<lambda>s. if s = ''{}'' then Some (JObj []) else None"
  let ?h = "\<lambda>(a :: Alarm) (v :: world). (Resolved True, v)"
  let ?w = "\<lparr>alarms = [\<lparr>r_id = ''A'', r_type = ''xstate-delay'', scheduled_at = 1000,
                 repeat_interval = None, r_payload = Some ''{}'', created_at = 0\<rparr>,
                \<lparr>r_id = ''R'', r_type = ''cache-cleanup'', scheduled_at = 900,
                 repeat_interval = Some 500, r_payload = Some ''{}'', created_at = 0\<rparr>],
       initialized = False,
       currentAlarmId = Some ''R'', currentAlarmTime = Some 900,
       setAlarmCalls = [900], mapHeap = [[]]\<rparr>"
  let ?a = "\<lparr>a_id = ''A'', a_type = ''xstate-delay'', scheduledAt = 1000,
             repeatInterval = None, a_payload = JObj [], createdAt = 0\<rparr>"
  let ?due = "[\<lparr>a_id = ''R'', a_type = ''cache-cleanup'', scheduledAt = 900,
               repeatInterval = Some 500, a_payload = JObj [], createdAt = 0\<rparr>, ?a]"
  have rd: "getDueAlarms ?parse 1000 ?w = (Inr ?due, ensureInitialized ?w)"
    by (simp add: getDueAlarms_def storage_getDueAlarms_def parseAlarmRecord_def)
  have dist: "distinct (map a_id ?due)" by simp
  have mem: "?a \<in> set ?due" by simp
  have one: "repeatInterval ?a = None" by simp
  have run: "handleDueAlarms ?parse (\<lambda>j. ''{}'') 1000 ?h ?w
               = (fst (handleDueAlarms ?parse (\<lambda>j. ''{}'') 1000 ?h ?w),
                  fst (snd (handleDueAlarms ?parse (\<lambda>j. ''{}'') 1000 ?h ?w)),
                  snd (snd (handleDueAlarms ?parse (\<lambda>j. ''{}'') 1000 ?h ?w)))"
    by simp
  have prov: "\<forall>x \<in> set (snd (snd (handleDueAlarms ?parse (\<lambda>j. ''{}'') 1000 ?h ?w))).
               rows_under (a_id ?a) (st_received x) = []
                 \<longrightarrow> rows_under (a_id ?a) (st_returned x) = []"
    by (simp add: handleDueAlarms_def getDueAlarms_def storage_getDueAlarms_def
          parseAlarmRecord_def mutate_def invoke_def deleteAlarm_def updateAlarm_def
          storage_deleteAlarm_def storage_updateAlarm_def ensureInitialized_def rows_under_def)
  from one_shot_drained [where parse = ?parse and stringify = "\<lambda>j. ''{}''" and handler = ?h,
      OF rd dist mem one] prov
  have "rows_under (a_id ?a) (fst (snd (handleDueAlarms ?parse (\<lambda>j. ''{}'') 1000 ?h ?w))) = []"
    by blast
  then show ?thesis
    by (simp add: handleDueAlarms_def getDueAlarms_def storage_getDueAlarms_def
          parseAlarmRecord_def mutate_def invoke_def deleteAlarm_def updateAlarm_def
          storage_deleteAlarm_def storage_updateAlarm_def rescheduleNextAlarm_def
          storage_getEarliestAlarm_def ensureInitialized_def rows_under_def)
qed

text \<open>
  The claim as stated fails for a handler that schedules the alarm again under the
  same id and deadline: after the drain a due row without \<open>repeat_interval\<close> is
  stored under the id.
\<close>

theorem one_shot_drained_counterexample:
  "fst (handleDueAlarms (\<lambda>s. if s = ''{}'' then Some (JObj []) else None) (\<lambda>j. ''{}'') 1000
     (\<lambda>a v. (Resolved True,
               snd (schedule (\<lambda>j. ''{}'') 1000
                      \<lparr>o_id = a_id a, o_type = a_type a, o_scheduledAt = scheduledAt a,
                        o_repeatInterval = None, o_payload = a_payload a\<rparr> v)))
     \<lparr>alarms = [\<lparr>r_id = ''A'', r_type = ''custom'', scheduled_at = 1000,
                 repeat_interval = None, r_payload = Some ''{}'', created_at = 0\<rparr>],
       initialized = False,
       currentAlarmId = Some ''A'', currentAlarmTime = Some 1000,
       setAlarmCalls = [1000], mapHeap = [[]]\<rparr>)
   = Inr [\<lparr>h_id = ''A'', h_type = ''custom'', rescheduled = False, deleted = True\<rparr>]
   \<and> fst (snd (handleDueAlarms (\<lambda>s. if s = ''{}'' then Some (JObj []) else None)
       (\<lambda>j. ''{}'') 1000
     (\<lambda>a v. (Resolved True,
               snd (schedule (\<lambda>j. ''{}'') 1000
                      \<lparr>o_id = a_id a, o_type = a_type a, o_scheduledAt = scheduledAt a,
                        o_repeatInterval = None, o_payload = a_payload a\<rparr> v)))
     \<lparr>alarms = [\<lparr>r_id = ''A'', r_type = ''custom'', scheduled_at = 1000,
                 repeat_interval = None, r_payload = Some ''{}'', created_at = 0\<rparr>],
       initialized = False,
       currentAlarmId = Some ''A'', currentAlarmTime = Some 1000,
       setAlarmCalls = [1000], mapHeap = [[]]\<rparr>))
   = \<lparr>alarms = [\<lparr>r_id = ''A'', r_type = ''custom'', scheduled_at = 1000,
                  repeat_interval = None, r_payload = Some ''{}'', created_at = 1000\<rparr>],
        initialized = True,
        currentAlarmId = Some ''A'', currentAlarmTime = Some 1000,
        setAlarmCalls = [1000], mapHeap = [[]]\<rparr>"
  by (simp add: handleDueAlarms_def getDueAlarms_def storage_getDueAlarms_def
        parseAlarmRecord_def mutate_def invoke_def deleteAlarm_def
        storage_deleteAlarm_def rescheduleNextAlarm_def storage_getEarliestAlarm_def
        ensureInitialized_def schedule_def storage_insertAlarm_def)


subsection \<open>Recurring alarms\<close>

lemma drain_other_rows:
  "x \<notin> a_id ` set as \<Longrightarrow>
   (\<forall>st \<in> set (snd (snd (drain s now h as w))).
       rows_under x (st_returned st) = rows_under x (st_received st)) \<Longrightarrow>
   rows_under x (fst (snd (drain s now h as w))) = rows_under x w"
proof (induction as arbitrary: w)
  case Nil
  then show ?case by simp
next
  case (Cons b as)
  let ?w1 = "fst (snd (snd (mutate s now b w)))"
  let ?w2 = "snd (h b ?w1)"
  from Cons.prems(1) have nb: "a_id b \<noteq> x" and rest: "x \<notin> a_id ` set as" by auto
  from Cons.prems(2) have here: "rows_under x ?w2 = rows_under x ?w1"
    and keeps: "\<forall>st \<in> set (snd (snd (drain s now h as ?w2))).
       rows_under x (st_returned st) = rows_under x (st_received st)"
    by (simp_all add: drain_Cons del: drain.simps(2))
  have "rows_under x (fst (snd (drain s now h (b # as) w)))
          = rows_under x (fst (snd (drain s now h as ?w2)))"
    by (simp add: drain_Cons del: drain.simps(2))
  also have "\<dots> = rows_under x ?w2"
    by (rule Cons.IH [OF rest keeps])
  also note here
  also have "rows_under x ?w1 = rows_under x w"
    by (rule mutate_other_rows [OF nb])
  finally show ?case .
qed

lemma drain_recurring_rows:
  assumes rec: "repeatInterval a = Some n" "n \<noteq> 0"
  shows "distinct (map a_id as) \<Longrightarrow> a \<in> set as \<Longrightarrow>
   (\<forall>st \<in> set (snd (snd (drain s now h as w))).
       rows_under (a_id a) (st_returned st) = rows_under (a_id a) (st_received st)) \<Longrightarrow>
   rows_under (a_id a) (fst (snd (drain s now h as w)))
     = map (\<lambda>r. r\<lparr>scheduled_at := now + n, repeat_interval := Some n,
                   r_payload := Some (s (a_payload a))\<rparr>)
         (rows_under (a_id a) w)"
proof (induction as arbitrary: w)
  case Nil
  then show ?case by simp
next
  case (Cons b as)
  let ?w1 = "fst (snd (snd (mutate s now b w)))"
  let ?w2 = "snd (h b ?w1)"
  let ?upd = "\<lambda>r. r\<lparr>scheduled_at := now + n, repeat_interval := Some n,
                      r_payload := Some (s (a_payload a))\<rparr>"
  from Cons.prems(3) have here: "rows_under (a_id a) ?w2 = rows_under (a_id a) ?w1"
    and keeps: "\<forall>st \<in> set (snd (snd (drain s now h as ?w2))).
       rows_under (a_id a) (st_returned st) = rows_under (a_id a) (st_received st)"
    by (simp_all add: drain_Cons del: drain.simps(2))
  have step: "rows_under (a_id a) (fst (snd (drain s now h (b # as) w)))
          = rows_under (a_id a) (fst (snd (drain s now h as ?w2)))"
    by (simp add: drain_Cons del: drain.simps(2))
  show ?case
  proof (cases "b = a")
    case True
    with Cons.prems(1) have "a_id a \<notin> a_id ` set as" by simp
    from drain_other_rows [OF this keeps]
    have "rows_under (a_id a) (fst (snd (drain s now h as ?w2))) = rows_under (a_id a) ?w2" .
    also note here
    also from True have "rows_under (a_id a) ?w1 = map ?upd (rows_under (a_id a) w)"
      by (simp only: mutate_recurring_rows [OF rec])
    finally show ?thesis using step by simp
  next
    case False
    with Cons.prems(1,2) have mem: "a \<in> set as" and d: "distinct (map a_id as)"
      and nb: "a_id b \<noteq> a_id a"
      by auto
    from Cons.IH [OF d mem keeps]
    have "rows_under (a_id a) (fst (snd (drain s now h as ?w2)))
            = map ?upd (rows_under (a_id a) ?w2)" .
    also have "rows_under (a_id a) ?w2 = rows_under (a_id a) w"
      using here mutate_other_rows [OF nb, of s now w] by simp
    finally show ?thesis using step by simp
  qed
qed

text \<open>
  Claim C2, as amended, stated for the alarms the read returned. Let the read of a
  drain entered at \<open>now\<close> return \<open>due\<close>, no two alarms of \<open>due\<close> sharing an id, and
  let \<open>a\<close> be an alarm of \<open>due\<close> with \<open>repeatInterval = n > 0\<close>. Then
  \<^item> the loop takes exactly one step for the id of \<open>a\<close>; its statement is the UPDATE
    for that id with \<open>scheduled_at = now + n\<close> (one reschedule, however many
    intervals have passed); the handler is called in that step, for \<open>a\<close>, on a state
    in which the rows under the id are the rows the step started with, each with
    \<open>scheduled_at = now + n\<close>, \<open>repeat_interval = n\<close> and the payload written again;
  \<^item> the returned vector holds exactly one record for the id, and it is
    \<open>{id, type, rescheduled: true, deleted: false}\<close>;
  \<^item> after the drain the rows stored under the id are the rows stored under it at
    the read, each with \<open>scheduled_at = now + n\<close>, provided no handler invocation
    of this drain changes the rows stored under the id.
\<close>

theorem recurring_rescheduled:
  assumes rd: "getDueAlarms parse now w = (Inr due, w1)"
    and dist: "distinct (map a_id due)"
    and a: "a \<in> set due" "repeatInterval a = Some n" "0 < n"
  shows "(\<exists>st. filter (\<lambda>x. a_id (st_alarm x) = a_id a)
                 (snd (snd (handleDueAlarms parse stringify now handler w))) = [st]
            \<and> st_alarm st = a
            \<and> st_statement st
                = SqlUpdate \<lparr>o_id = a_id a, o_type = a_type a, o_scheduledAt = now + n,
                             o_repeatInterval = Some n, o_payload = a_payload a\<rparr>
            \<and> rows_under (a_id a) (st_received st)
                = map (\<lambda>r. r\<lparr>scheduled_at := now + n, repeat_interval := Some n,
                              r_payload := Some (stringify (a_payload a))\<rparr>)
                    (rows_under (a_id a) (st_before st))
            \<and> handler a (st_received st) = (st_outcome st, st_returned st))
       \<and> (\<exists>res. fst (handleDueAlarms parse stringify now handler w) = Inr res
            \<and> filter (\<lambda>x. h_id x = a_id a) res
                = [\<lparr>h_id = a_id a, h_type = a_type a, rescheduled = True, deleted = False\<rparr>])
       \<and> ((\<forall>x \<in> set (snd (snd (handleDueAlarms parse stringify now handler w))).
               rows_under (a_id a) (st_returned x) = rows_under (a_id a) (st_received x))
            \<longrightarrow> rows_under (a_id a) (fst (snd (handleDueAlarms parse stringify now handler w)))
                  = map (\<lambda>r. r\<lparr>scheduled_at := now + n, repeat_interval := Some n,
                                r_payload := Some (stringify (a_payload a))\<rparr>)
                      (rows_under (a_id a) w1))"
proof -
  note hd = handleDueAlarms_read [OF rd, of stringify handler]
  let ?steps = "snd (snd (drain stringify now handler due w1))"
  let ?upd = "\<lambda>r. r\<lparr>scheduled_at := now + n, repeat_interval := Some n,
                      r_payload := Some (stringify (a_payload a))\<rparr>"
  from a(3) have n0: "n \<noteq> 0" by simp
  from a(2) n0 have rec: "recurring a"
    and stm: "statement_for now a = SqlUpdate \<lparr>o_id = a_id a, o_type = a_type a,
                 o_scheduledAt = now + n, o_repeatInterval = Some n, o_payload = a_payload a\<rparr>"
    by (simp_all add: recurring_def statement_for_def)
  from step_for [OF dist a(1), of stringify now handler w1] obtain st where
    st: "filter (\<lambda>x. a_id (st_alarm x) = a_id a) ?steps = [st]" "st \<in> set ?steps" "st_alarm st = a"
    by blast
  from steps_sound [of stringify now handler due w1] st(2,3) stm
  have snd: "st_statement st = SqlUpdate \<lparr>o_id = a_id a, o_type = a_type a,
                 o_scheduledAt = now + n, o_repeatInterval = Some n, o_payload = a_payload a\<rparr>"
    "alarms (st_received st) = run_statement stringify (st_statement st) (alarms (st_before st))"
    "handler a (st_received st) = (st_outcome st, st_returned st)"
    by auto
  from snd(1,2) have upd: "rows_under (a_id a) (st_received st)
                             = map ?upd (rows_under (a_id a) (st_before st))"
    by (simp add: rows_under_def filter_id_update_same)
  have c1: "\<exists>st. filter (\<lambda>x. a_id (st_alarm x) = a_id a)
                 (snd (snd (handleDueAlarms parse stringify now handler w))) = [st]
            \<and> st_alarm st = a
            \<and> st_statement st
                = SqlUpdate \<lparr>o_id = a_id a, o_type = a_type a, o_scheduledAt = now + n,
                             o_repeatInterval = Some n, o_payload = a_payload a\<rparr>
            \<and> rows_under (a_id a) (st_received st)
                = map ?upd (rows_under (a_id a) (st_before st))
            \<and> handler a (st_received st) = (st_outcome st, st_returned st)"
    unfolding hd using st(1,3) snd(1,3) upd by blast
  have c2: "\<exists>res. fst (handleDueAlarms parse stringify now handler w) = Inr res
            \<and> filter (\<lambda>x. h_id x = a_id a) res
                = [\<lparr>h_id = a_id a, h_type = a_type a, rescheduled = True, deleted = False\<rparr>]"
    unfolding hd fst_drain using results_for [OF dist a(1)] rec
    by (simp add: result_of_def)
  have c3: "(\<forall>x \<in> set (snd (snd (handleDueAlarms parse stringify now handler w))).
               rows_under (a_id a) (st_returned x) = rows_under (a_id a) (st_received x))
            \<longrightarrow> rows_under (a_id a) (fst (snd (handleDueAlarms parse stringify now handler w)))
                  = map ?upd (rows_under (a_id a) w1)"
    unfolding hd
    using drain_recurring_rows [OF a(2) n0 dist a(1), of stringify now handler w1]
    by (simp add: rows_under_def)
  from c1 c2 c3 show ?thesis by blast
qed

text \<open>
  The alarm \<open>R\<close> (every 500, due at 1100) drained at 2700, three intervals late, by
  a handler that leaves the state alone: the one row under \<open>R\<close> is stored with
  deadline 3200.
\<close>

theorem recurring_rescheduled_witness:
  "fst (handleDueAlarms (\<lambda>s. if s = ''{}'' then Some (JObj []) else None) (\<lambda>j. ''{}'') 2700
     (\<lambda>a v. (Resolved True, v))
     \<lparr>alarms = [\<lparr>r_id = ''R'', r_type = ''cache-cleanup'', scheduled_at = 1100,
                 repeat_interval = Some 500, r_payload = Some ''{}'', created_at = 1000\<rparr>],
       initialized = False,
       currentAlarmId = Some ''R'', currentAlarmTime = Some 1100,
       setAlarmCalls = [1100], mapHeap = [[]]\<rparr>)
   = Inr [\<lparr>h_id = ''R'', h_type = ''cache-cleanup'', rescheduled = True, deleted = False\<rparr>]
   \<and> fst (snd (handleDueAlarms (\<lambda>s. if s = ''{}'' then Some (JObj []) else None)
       (\<lambda>j. ''{}'') 2700 (\<lambda>a v. (Resolved True, v))
     \<lparr>alarms = [\<lparr>r_id = ''R'', r_type = ''cache-cleanup'', scheduled_at = 1100,
                 repeat_interval = Some 500, r_payload = Some ''{}'', created_at = 1000\<rparr>],
       initialized = False,
       currentAlarmId = Some ''R'', currentAlarmTime = Some 1100,
       setAlarmCalls = [1100], mapHeap = [[]]\<rparr>))
   = \<lparr>alarms = [\<lparr>r_id = ''R'', r_type = ''cache-cleanup'', scheduled_at = 3200,
                  repeat_interval = Some 500, r_payload = Some ''{}'', created_at = 1000\<rparr>],
        initialized = True,
        currentAlarmId = Some ''R'', currentAlarmTime = Some 3200,
        setAlarmCalls = [1100, 3200], mapHeap = [[]]\<rparr>
   \<and> rows_under ''R'' (fst (snd (handleDueAlarms (\<lambda>s. if s = ''{}'' then Some (JObj []) else None)
       (\<lambda>j. ''{}'') 2700 (\<lambda>a v. (Resolved True, v))
     \<lparr>alarms = [\<lparr>r_id = ''R'', r_type = ''cache-cleanup'', scheduled_at = 1100,
                 repeat_interval = Some 500, r_payload = Some ''{}'', created_at = 1000\<rparr>],
       initialized = False,
       currentAlarmId = Some ''R'', currentAlarmTime = Some 1100,
       setAlarmCalls = [1100], mapHeap = [[]]\<rparr>)))
   = [\<lparr>r_id = ''R'', r_type = ''cache-cleanup'', scheduled_at = 3200,
        repeat_interval = Some 500, r_payload = Some ''{}'', created_at = 1000\<rparr>]"
proof -
  let ?parse = "\<lambda>s. if s = ''{}'' then Some (JObj []) else None"
  let ?h = "\<lambda>(a :: Alarm) (v :: world). (Resolved True, v)"
  let ?w = "\<lparr>alarms = [\<lparr>r_id = ''R'', r_type = ''cache-cleanup'', scheduled_at = 1100,
                 repeat_interval = Some 500, r_payload = Some ''{}'', created_at = 1000\<rparr>],
       initialized = False,
       currentAlarmId = Some ''R'', currentAlarmTime = Some 1100,
       setAlarmCalls = [1100], mapHeap = [[]]\<rparr>"
  let ?a = "\<lparr>a_id = ''R'', a_type = ''cache-cleanup'', scheduledAt = 1100,
             repeatInterval = Some 500, a_payload = JObj [], createdAt = 1000\<rparr>"
  have rd: "getDueAlarms ?parse 2700 ?w = (Inr [?a], ensureInitialized ?w)"
    by (simp add: getDueAlarms_def storage_getDueAlarms_def parseAlarmRecord_def)
  have dist: "distinct (map a_id [?a])" by simp
  have mem: "?a \<in> set [?a]" by simp
  have rep: "repeatInterval ?a = Some 500" by simp
  have pos: "(0::int) < 500" by simp
  have prov: "\<forall>x \<in> set (snd (snd (handleDueAlarms ?parse (\<lambda>j. ''{}'') 2700 ?h ?w))).
               rows_under (a_id ?a) (st_returned x) = rows_under (a_id ?a) (st_received x)"
    by (simp add: handleDueAlarms_def getDueAlarms_def storage_getDueAlarms_def
          parseAlarmRecord_def mutate_def invoke_def deleteAlarm_def updateAlarm_def
          storage_deleteAlarm_def storage_updateAlarm_def ensureInitialized_def rows_under_def)
  from recurring_rescheduled [where parse = ?parse and stringify = "\<lambda>j. ''{}''"
      and handler = ?h, OF rd dist mem rep pos] prov
  have "rows_under (a_id ?a) (fst (snd (handleDueAlarms ?parse (\<lambda>j. ''{}'') 2700 ?h ?w)))
          = map (\<lambda>r. r\<lparr>scheduled_at := 2700 + 500, repeat_interval := Some 500,
                        r_payload := Some ''{}''\<rparr>)
              (rows_under (a_id ?a) (ensureInitialized ?w))"
    by blast
  then show ?thesis
    by (simp add: handleDueAlarms_def getDueAlarms_def storage_getDueAlarms_def
          parseAlarmRecord_def mutate_def invoke_def deleteAlarm_def updateAlarm_def
          storage_deleteAlarm_def storage_updateAlarm_def rescheduleNextAlarm_def
          storage_getEarliestAlarm_def ensureInitialized_def rows_under_def)
qed

text \<open>
  The claim as stated fails for a handler that cancels the alarm it is called for:
  the result record says rescheduled, and no row is stored under the id.
\<close>

theorem recurring_rescheduled_counterexample:
  "fst (handleDueAlarms (\<lambda>s. if s = ''{}'' then Some (JObj []) else None) (\<lambda>j. ''{}'') 1100
     (\<lambda>a v. (Resolved True, cancel (a_id a) v))
     \<lparr>alarms = [\<lparr>r_id = ''R'', r_type = ''custom'', scheduled_at = 1100,
                 repeat_interval = Some 500, r_payload = Some ''{}'', created_at = 1000\<rparr>],
       initialized = False,
       currentAlarmId = Some ''R'', currentAlarmTime = Some 1100,
       setAlarmCalls = [1100], mapHeap = [[]]\<rparr>)
   = Inr [\<lparr>h_id = ''R'', h_type = ''custom'', rescheduled = True, deleted = False\<rparr>]
   \<and> fst (snd (handleDueAlarms (\<lambda>s. if s = ''{}'' then Some (JObj []) else None)
       (\<lambda>j. ''{}'') 1100 (\<lambda>a v. (Resolved True, cancel (a_id a) v))
     \<lparr>alarms = [\<lparr>r_id = ''R'', r_type = ''custom'', scheduled_at = 1100,
                 repeat_interval = Some 500, r_payload = Some ''{}'', created_at = 1000\<rparr>],
       initialized = False,
       currentAlarmId = Some ''R'', currentAlarmTime = Some 1100,
       setAlarmCalls = [1100], mapHeap = [[]]\<rparr>))
   = \<lparr>alarms = [], initialized = True,
        currentAlarmId = None, currentAlarmTime = None,
        setAlarmCalls = [1100], mapHeap = [[]]\<rparr>"
  by (simp add: handleDueAlarms_def getDueAlarms_def storage_getDueAlarms_def
        parseAlarmRecord_def mutate_def invoke_def updateAlarm_def
        storage_updateAlarm_def rescheduleNextAlarm_def storage_getEarliestAlarm_def
        ensureInitialized_def cancel_def storage_deleteAlarm_def)

section \<open>Properties of parseRows\<close>

lemma parseRows_single_batch:
  assumes "cols \<noteq> []"
  shows "parseRows (Batches [\<lparr>b_columns = Some cols, b_columnNames = None,
                              b_rows = Some rs, b_results = None\<rparr>])
           = Inr (map (row_object cols) rs)"
    and "parseRows (Batches [\<lparr>b_columns = None, b_columnNames = Some cols,
                              b_rows = None, b_results = Some rs\<rparr>])
           = Inr (map (row_object cols) rs)"
    and "parseRows (Single \<lparr>b_columns = None, b_columnNames = Some cols,
                             b_rows = None, b_results = Some rs\<rparr>)
           = Inr (map (row_object cols) rs)"
    and "parseRows (Cursor [\<lparr>b_columns = Some cols, b_columnNames = None,
                             b_rows = None, b_results = Some rs\<rparr>])
           = Inr (map (row_object cols) rs)"
  using assms by (simp_all add: parseRows_def)

lemma parseRows_first_batch_only:
  "parseRows (Batches (b # bs)) = parseRows (Batches [b])"
  by (simp add: parseRows_def)

text \<open>
  Claim C6. The three shapes decode alike when the rows come in one batch (the two
  lemmas above), but not when they are spread over several: outside the cursor
  branch \<open>parseRows\<close> reads \<open>batches[0]\<close> only. The rows \<open>a1\<close>, \<open>a2\<close> in two batches
  decode to two records from a cursor and to the first record alone from an array.
\<close>

theorem parseRows_array_drops_later_batches:
  "parseRows (Batches [\<lparr>b_columns = Some [''id''], b_columnNames = None,
                        b_rows = Some [[SqlText ''a1'']], b_results = None\<rparr>,
                       \<lparr>b_columns = Some [''id''], b_columnNames = None,
                        b_rows = Some [[SqlText ''a2'']], b_results = None\<rparr>])
     = Inr [row_object [''id''] [SqlText ''a1'']]
   \<and> parseRows (Cursor [\<lparr>b_columns = Some [''id''], b_columnNames = None,
                          b_rows = None, b_results = Some [[SqlText ''a1'']]\<rparr>,
                         \<lparr>b_columns = Some [''id''], b_columnNames = None,
                          b_rows = None, b_results = Some [[SqlText ''a2'']]\<rparr>])
     = Inr [row_object [''id''] [SqlText ''a1''], row_object [''id''] [SqlText ''a2'']]
   \<and> row_object [''id''] [SqlText ''a2''] ''id'' = Some (Cell (SqlText ''a2''))"
  by (simp add: parseRows_def row_object_def enumerate_eq_zip)

section \<open>Properties of the no-op clock\<close>

text \<open>
  Claim C9, as amended. \<open>NOOP_CLOCK.setTimeout\<close> returns what \<open>Math.random()\<close>
  returns at that call, a number at least 0 and below 1, and schedules nothing;
  \<open>NOOP_CLOCK.clearTimeout\<close> does nothing, whatever its input.
\<close>

theorem noop_clock:
  assumes "0 \<le> random" and "random < 1"
  shows "fst (NOOP_CLOCK_setTimeout random fn delay timers) = random
       \<and> 0 \<le> fst (NOOP_CLOCK_setTimeout random fn delay timers)
       \<and> fst (NOOP_CLOCK_setTimeout random fn delay timers) < 1
       \<and> snd (NOOP_CLOCK_setTimeout random fn delay timers) = timers
       \<and> NOOP_CLOCK_clearTimeout i timers = timers"
  using assms by (simp add: NOOP_CLOCK_setTimeout_def NOOP_CLOCK_clearTimeout_def)

theorem noop_clock_witness:
  "NOOP_CLOCK_setTimeout (1 / 2) () 1000 [3 :: nat] = (1 / 2, [3])
   \<and> NOOP_CLOCK_clearTimeout (1 / 2 :: real) [3 :: nat] = [3]"
proof -
  have a: "(0::real) \<le> 1 / 2" and b: "(1 / 2 :: real) < 1" by simp_all
  from noop_clock [OF a b, of "()" 1000 "[3 :: nat]" "1 / 2 :: real"]
  show ?thesis by (simp add: prod_eq_iff)
qed

text \<open>
  The claim as stated (the token is never zero) fails when \<open>Math.random()\<close> returns 0,
  a value of its range.
\<close>

theorem noop_clock_zero_token_counterexample:
  "(0::real) \<le> 0 \<and> (0::real) < 1
   \<and> fst (NOOP_CLOCK_setTimeout 0 () 1000 [3 :: nat]) = 0"
  by (simp add: NOOP_CLOCK_setTimeout_def)


section \<open>Properties of the scheduler index\<close>

lemma keys_Map_set: "fst ` set (Map_set k v m) = insert k (fst ` set m)"
proof (induction m)
  case Nil
  then show ?case by simp
next
  case (Cons e m)
  obtain k' v' where e: "e = (k', v')" by (cases e)
  show ?case
  proof (cases "k' = k")
    case True
    with e show ?thesis by simp
  next
    case False
    with e Cons.IH show ?thesis by (simp add: insert_commute)
  qed
qed

lemma keys_restore_entries:
  "fst ` set (foldl (restore_entry clock) m ias)
     = fst ` set m \<union> (\<lambda>ia. x_scheduledEventId (ra_payload (snd ia))) ` set ias"
  by (induction ias arbitrary: m) (auto simp: restore_entry_def keys_Map_set)

lemma with_map_with_map [simp]: "with_map p m (with_map p m' w) = with_map p m w"
  by (simp add: with_map_def)

lemma mapHeap_with_map:
  "p < length (mapHeap w) \<Longrightarrow> mapHeap (with_map p m w) ! p = m"
  by (simp add: with_map_def)

lemma with_map_same: "with_map p (mapHeap w ! p) w = w"
  by (simp add: with_map_def)

lemma heap_set_with_map:
  "heap_set p k v w = with_map p (Map_set k v (mapHeap w ! p)) w"
  by (simp add: heap_set_def with_map_def)

lemma restore_from_fold:
  assumes "loaded w"
  shows "restore_from clock i as w
           = with_map scheduledEventsMap
               (foldl (restore_entry clock) (mapHeap w ! scheduledEventsMap)
                  (filter (restorable clock) (enumerate i as))) w"
  using assms
proof (induction as arbitrary: i w)
  case Nil
  then show ?case by (simp add: with_map_same)
next
  case (Cons a as)
  show ?case
  proof (cases "restorable clock (i, a)")
    case True
    let ?w1 = "heap_set scheduledEventsMap (x_scheduledEventId (ra_payload a))
                 (restored_snapshot (clock i) a) w"
    from Cons.prems have l1: "loaded ?w1" by (simp add: loaded_def heap_set_def)
    from Cons.prems have cell: "mapHeap ?w1 ! scheduledEventsMap
        = restore_entry clock (mapHeap w ! scheduledEventsMap) (i, a)"
      by (simp add: heap_set_def restore_entry_def loaded_def)
    from True have "restore_from clock i (a # as) w = restore_from clock (Suc i) as ?w1"
      by (simp add: restorable_def)
    also have "\<dots> = with_map scheduledEventsMap
               (foldl (restore_entry clock) (mapHeap ?w1 ! scheduledEventsMap)
                  (filter (restorable clock) (enumerate (Suc i) as))) ?w1"
      by (rule Cons.IH [OF l1])
    also have "\<dots> = with_map scheduledEventsMap
               (foldl (restore_entry clock) (mapHeap w ! scheduledEventsMap)
                  (filter (restorable clock) (enumerate i (a # as)))) w"
      unfolding cell using True by (simp add: heap_set_with_map)
    finally show ?thesis .
  next
    case False
    then have "restore_from clock i (a # as) w = restore_from clock (Suc i) as w"
      by (auto simp: restorable_def)
    with False Cons.IH [OF Cons.prems, of "Suc i"] show ?thesis by simp
  qed
qed

lemma set_enumerate_filter:
  "(\<lambda>ia. f (snd ia)) ` set (filter P (enumerate 0 as))
     = {f (as ! i) | i. i < length as \<and> P (i, as ! i)}"
  by (auto simp: in_set_enumerate_eq image_iff) 

text \<open>
  Claim C8. \<open>restoreScheduledEvents\<close> changes the index alone, and what it does to
  it is one \<open>set\<close> per element whose payload type is \<open>xstate-delay\<close> and whose
  \<open>scheduledAt\<close> is strictly greater than the current time (read in that element's
  iteration), in the order of the argument. So the keys of the index afterwards are
  the keys it had together with the \<open>scheduledEventId\<close> of exactly those elements:
  an element whose deadline is at or before the current time adds no entry.
\<close>

theorem restoreScheduledEvents_future_only:
  assumes "loaded w"
  shows "restoreScheduledEvents clock as w
           = with_map scheduledEventsMap
               (foldl (restore_entry clock) (mapHeap w ! scheduledEventsMap)
                  (filter (restorable clock) (enumerate 0 as))) w
       \<and> fst ` set (mapHeap (restoreScheduledEvents clock as w) ! scheduledEventsMap)
           = fst ` set (mapHeap w ! scheduledEventsMap)
             \<union> {x_scheduledEventId (ra_payload (as ! i)) | i.
                  i < length as \<and> x_type (ra_payload (as ! i)) = ''xstate-delay''
                  \<and> clock i < ra_scheduledAt (as ! i)}"
proof -
  have eq: "restoreScheduledEvents clock as w
           = with_map scheduledEventsMap
               (foldl (restore_entry clock) (mapHeap w ! scheduledEventsMap)
                  (filter (restorable clock) (enumerate 0 as))) w"
    using assms by (simp add: restoreScheduledEvents_def restore_from_fold)
  have "fst ` set (mapHeap (restoreScheduledEvents clock as w) ! scheduledEventsMap)
      = fst ` set (foldl (restore_entry clock) (mapHeap w ! scheduledEventsMap)
                  (filter (restorable clock) (enumerate 0 as)))"
    using assms by (simp add: eq mapHeap_with_map loaded_def)
  also have "\<dots> = fst ` set (mapHeap w ! scheduledEventsMap)
             \<union> {x_scheduledEventId (ra_payload (as ! i)) | i.
                  i < length as \<and> x_type (ra_payload (as ! i)) = ''xstate-delay''
                  \<and> clock i < ra_scheduledAt (as ! i)}"
    by (simp only: keys_restore_entries
          set_enumerate_filter [of "\<lambda>a. x_scheduledEventId (ra_payload a)" "restorable clock" as]
          restorable_def fst_conv snd_conv)
  finally show ?thesis using eq by blast
qed


theorem restoreScheduledEvents_future_only_witness:
  "restoreScheduledEvents (\<lambda>i. 1000)
     [\<lparr>ra_payload = \<lparr>x_type = ''xstate-delay'', x_sourceSessionId = ''s1'',
                      x_targetSessionId = ''s1'', x_event = JObj [(''type'', JStr ''TICK'')],
                      x_scheduledEventId = ''s1.tick'', x_alarmId = ''xstate-s1.tick''\<rparr>,
        ra_scheduledAt = 1500\<rparr>,
      \<lparr>ra_payload = \<lparr>x_type = ''xstate-delay'', x_sourceSessionId = ''s1'',
                      x_targetSessionId = ''s1'', x_event = JObj [(''type'', JStr ''LATE'')],
                      x_scheduledEventId = ''s1.late'', x_alarmId = ''xstate-s1.late''\<rparr>,
        ra_scheduledAt = 900\<rparr>]
     \<lparr>alarms = [], initialized = True,
       currentAlarmId = None, currentAlarmTime = None,
       setAlarmCalls = [], mapHeap = [[]]\<rparr>
   = \<lparr>alarms = [], initialized = True,
       currentAlarmId = None, currentAlarmTime = None,
       setAlarmCalls = [],
       mapHeap = [[(''s1.tick'',
                    \<lparr>s_sourceSessionId = ''s1'', s_targetSessionId = ''s1'',
                      s_event = JObj [(''type'', JStr ''TICK'')], s_delay = 500,
                      s_id = ''tick'', s_startedAt = 1000\<rparr>)]]\<rparr>"
proof -
  let ?w = "\<lparr>alarms = [], initialized = True,
       currentAlarmId = None, currentAlarmTime = None,
       setAlarmCalls = [], mapHeap = [[]]\<rparr>"
  have l: "loaded ?w" by (simp add: loaded_def scheduledEventsMap_def)
  note restoreScheduledEvents_future_only [OF l, of "\<lambda>i. 1000"]
  then show ?thesis
    by (simp add: with_map_def restore_entry_def restorable_def restored_snapshot_def
          last_segment_def scheduledEventsMap_def enumerate_eq_zip)
qed

subsection \<open>The copy returned by getScheduledEvents\<close>

lemma with_map_swap:
  "p \<noteq> q \<Longrightarrow> with_map p m (with_map q m' w) = with_map q m' (with_map p m w)"
  by (simp add: with_map_def list_update_swap)

lemma mapHeap_with_map_other:
  "p \<noteq> q \<Longrightarrow> mapHeap (with_map p m w) ! q = mapHeap w ! q"
  by (simp add: with_map_def)

lemma heap_delete_with_map:
  "heap_delete p k w = with_map p (Map_delete k (mapHeap w ! p)) w"
  by (simp add: heap_delete_def with_map_def)

lemma heap_clear_with_map: "heap_clear p w = with_map p [] w"
  by (simp add: heap_clear_def with_map_def)

lemma mutate_map_with_map:
  "\<exists>m. mutate_map p mu w = with_map p m w"
  by (cases mu) (auto simp: heap_set_with_map heap_delete_with_map heap_clear_with_map)

lemma mutations_with_map:
  "\<exists>m. foldl (\<lambda>v mu. mutate_map p mu v) (with_map p m0 w) mus = with_map p m w"
proof (induction mus arbitrary: m0)
  case Nil
  then show ?case by auto
next
  case (Cons mu mus)
  from mutate_map_with_map [of p mu "with_map p m0 w"]
  obtain m1 where "mutate_map p mu (with_map p m0 w) = with_map p m1 w"
    by auto
  with Cons.IH [of m1] show ?case by simp
qed

text \<open>The storage and the alarm manager do not read the \<open>Map\<close> objects.\<close>

lemma ensureInitialized_with_map [simp]:
  "ensureInitialized (with_map p m w) = with_map p m (ensureInitialized w)"
  by (simp add: ensureInitialized_def with_map_def)

lemma alarms_with_map [simp]: "alarms (with_map p m w) = alarms w"
  and currentAlarmId_with_map [simp]: "currentAlarmId (with_map p m w) = currentAlarmId w"
  and currentAlarmTime_with_map [simp]: "currentAlarmTime (with_map p m w) = currentAlarmTime w"
  and setAlarmCalls_with_map [simp]: "setAlarmCalls (with_map p m w) = setAlarmCalls w"
  by (simp_all add: with_map_def)

lemma rescheduleNextAlarm_with_map:
  "rescheduleNextAlarm (with_map p m w) = with_map p m (rescheduleNextAlarm w)"
  by (cases "sort_key scheduled_at (alarms w)")
     (simp_all add: rescheduleNextAlarm_def storage_getEarliestAlarm_def,
      simp_all add: with_map_def)

lemma cancel_with_map:
  "cancel i (with_map p m w) = with_map p m (cancel i w)"
proof -
  have d: "storage_deleteAlarm i (with_map p m w) = with_map p m (storage_deleteAlarm i w)"
    by (simp add: storage_deleteAlarm_def Let_def ensureInitialized_def with_map_def)
  have c: "currentAlarmId (storage_deleteAlarm i w) = currentAlarmId w"
    by (simp add: storage_deleteAlarm_def)
  show ?thesis
    by (simp add: cancel_def Let_def d c rescheduleNextAlarm_with_map)
qed

lemma schedule_with_map:
  "schedule s t opts (with_map p m w)
     = (fst (schedule s t opts w), with_map p m (snd (schedule s t opts w)))"
proof -
  have i: "storage_insertAlarm s t opts (with_map p m w)
     = (fst (storage_insertAlarm s t opts w), with_map p m (snd (storage_insertAlarm s t opts w)))"
    by (simp add: storage_insertAlarm_def Let_def ensureInitialized_def with_map_def)
  show ?thesis
    by (cases "storage_insertAlarm s t opts w")
       (auto simp: schedule_def i rescheduleNextAlarm_with_map split: sum.splits)
qed


lemma heap_set_other:
  "p \<noteq> q \<Longrightarrow> heap_set q k v (with_map p m w) = with_map p m (heap_set q k v w)"
  by (simp add: heap_set_with_map mapHeap_with_map_other with_map_swap)

lemma heap_delete_other:
  "p \<noteq> q \<Longrightarrow> heap_delete q k (with_map p m w) = with_map p m (heap_delete q k w)"
  by (simp add: heap_delete_with_map mapHeap_with_map_other with_map_swap)

lemma scheduler_cancel_with_map:
  "p \<noteq> scheduledEventsMap \<Longrightarrow>
     scheduler_cancel src i (with_map p m w) = with_map p m (scheduler_cancel src i w)"
  by (simp add: scheduler_cancel_def Let_def heap_delete_other cancel_with_map)

lemma scheduler_schedule_with_map:
  "p \<noteq> scheduledEventsMap \<Longrightarrow>
     scheduler_schedule s rid t1 t2 t3 src tgt ev d io (with_map p m w)
       = with_map p m (scheduler_schedule s rid t1 t2 t3 src tgt ev d io w)"
  by (simp add: scheduler_schedule_def Let_def heap_set_other schedule_with_map
        heap_delete_other case_prod_unfold split: sum.split)

lemma storage_deleteAlarm_with_map:
  "storage_deleteAlarm i (with_map p m w) = with_map p m (storage_deleteAlarm i w)"
  by (simp add: storage_deleteAlarm_def Let_def ensureInitialized_def with_map_def)

lemma cancelAll_index_with_map:
  "p \<noteq> q \<Longrightarrow>
     foldl (\<lambda>v k. heap_delete q k v) (with_map p m w) ks
     = with_map p m (foldl (\<lambda>v k. heap_delete q k v) w ks)"
  by (induction ks arbitrary: w) (simp_all add: heap_delete_other)

lemma cancelAll_deletes_with_map:
  "foldl (\<lambda>v k. storage_deleteAlarm (f k) v) (with_map p m w) ks
     = with_map p m (foldl (\<lambda>v k. storage_deleteAlarm (f k) v) w ks)"
  by (induction ks arbitrary: w) (simp_all add: storage_deleteAlarm_with_map)

lemma scheduler_cancelAll_with_map:
  "p \<noteq> scheduledEventsMap \<Longrightarrow>
     scheduler_cancelAll sid (with_map p m w) = with_map p m (scheduler_cancelAll sid w)"
  by (simp only: scheduler_cancelAll_def Let_def mapHeap_with_map_other
        cancelAll_index_with_map
        cancelAll_deletes_with_map [where f = "\<lambda>k. ''xstate-'' @ k"]
        currentAlarmId_with_map rescheduleNextAlarm_with_map if_distrib [of "with_map p m"]
        not_False_eq_True)

lemma restore_from_with_map:
  "p \<noteq> scheduledEventsMap \<Longrightarrow>
     restore_from clock i as (with_map p m w) = with_map p m (restore_from clock i as w)"
  by (induction as arbitrary: i w) (simp_all add: Let_def heap_set_other)

lemma handleXStateAlarm_with_map:
  assumes "p \<noteq> scheduledEventsMap"
    and "\<And>ev v. snd (deliver act ev (with_map p m v)) = with_map p m (snd (deliver act ev v))"
  shows "handleXStateAlarm d act (with_map p m w) = with_map p m (handleXStateAlarm d act w)"
  using assms by (simp add: handleXStateAlarm_def heap_delete_other)

text \<open>
  Claim C10. \<open>getScheduledEvents\<close> returns a \<open>Map\<close> object that did not exist
  before the call, so not the internal one, holding the entries the internal index
  has at the call; the objects that existed are left as they were. Whatever the
  holder then does to the returned object (any sequence of \<open>set\<close>, \<open>delete\<close>, \<open>clear\<close>)
  changes the entries of that object and nothing else. The internal index and the
  alarms table are the same for every content \<open>m\<close> of the returned object, and
  \<open>schedule\<close>, \<open>cancel\<close>, \<open>cancelAll\<close>, \<open>restoreScheduledEvents\<close> and
  \<open>handleXStateAlarm\<close> (for an actor whose own effect does not depend on the returned
  object) do the same with and without the change.
\<close>

theorem getScheduledEvents_fresh_copy:
  assumes "loaded w" and "getScheduledEvents w = (r, w1)"
  shows "r \<noteq> scheduledEventsMap \<and> r = length (mapHeap w)
       \<and> mapHeap w1 ! r = mapHeap w ! scheduledEventsMap
       \<and> take (length (mapHeap w)) (mapHeap w1) = mapHeap w
       \<and> (\<forall>mus. \<exists>m. foldl (\<lambda>v mu. mutate_map r mu v) w1 mus = with_map r m w1)
       \<and> (\<forall>m. mapHeap (with_map r m w1) ! scheduledEventsMap = mapHeap w ! scheduledEventsMap
              \<and> alarms (with_map r m w1) = alarms w
              \<and> scheduler_schedule s rid t1 t2 t3 src tgt ev d io (with_map r m w1)
                  = with_map r m (scheduler_schedule s rid t1 t2 t3 src tgt ev d io w1)
              \<and> scheduler_cancel src i (with_map r m w1)
                  = with_map r m (scheduler_cancel src i w1)
              \<and> scheduler_cancelAll src (with_map r m w1)
                  = with_map r m (scheduler_cancelAll src w1)
              \<and> restoreScheduledEvents clock as (with_map r m w1)
                  = with_map r m (restoreScheduledEvents clock as w1)
              \<and> ((\<forall>e v. snd (deliver act e (with_map r m v))
                           = with_map r m (snd (deliver act e v)))
                   \<longrightarrow> handleXStateAlarm x act (with_map r m w1)
                        = with_map r m (handleXStateAlarm x act w1)))"
proof -
  from assms(2) have r: "r = length (mapHeap w)"
    and w1: "w1 = w\<lparr>mapHeap := mapHeap w @ [mapHeap w ! scheduledEventsMap]\<rparr>"
    by (simp_all add: getScheduledEvents_def)
  from assms(1) r have ne: "r \<noteq> scheduledEventsMap" by (simp add: loaded_def)
  have copy: "mapHeap w1 ! r = mapHeap w ! scheduledEventsMap"
    by (simp add: w1 r)
  have old: "take (length (mapHeap w)) (mapHeap w1) = mapHeap w"
    by (simp add: w1)
  from assms(1) have same: "mapHeap w1 ! scheduledEventsMap = mapHeap w ! scheduledEventsMap"
    by (simp add: w1 loaded_def nth_append)
  have muts: "\<forall>mus. \<exists>m. foldl (\<lambda>v mu. mutate_map r mu v) w1 mus = with_map r m w1"
  proof
    fix mus
    from mutations_with_map [of r "mapHeap w1 ! r" w1 mus]
    show "\<exists>m. foldl (\<lambda>v mu. mutate_map r mu v) w1 mus = with_map r m w1"
      by (simp add: with_map_same)
  qed
  have al: "alarms w1 = alarms w" by (simp add: w1)
  have ops: "\<forall>m. mapHeap (with_map r m w1) ! scheduledEventsMap = mapHeap w ! scheduledEventsMap
              \<and> alarms (with_map r m w1) = alarms w
              \<and> scheduler_schedule s rid t1 t2 t3 src tgt ev d io (with_map r m w1)
                  = with_map r m (scheduler_schedule s rid t1 t2 t3 src tgt ev d io w1)
              \<and> scheduler_cancel src i (with_map r m w1)
                  = with_map r m (scheduler_cancel src i w1)
              \<and> scheduler_cancelAll src (with_map r m w1)
                  = with_map r m (scheduler_cancelAll src w1)
              \<and> restoreScheduledEvents clock as (with_map r m w1)
                  = with_map r m (restoreScheduledEvents clock as w1)
              \<and> ((\<forall>e v. snd (deliver act e (with_map r m v))
                           = with_map r m (snd (deliver act e v)))
                   \<longrightarrow> handleXStateAlarm x act (with_map r m w1)
                        = with_map r m (handleXStateAlarm x act w1))"
    using ne
    by (simp add: mapHeap_with_map_other same al scheduler_schedule_with_map
          scheduler_cancel_with_map scheduler_cancelAll_with_map
          restoreScheduledEvents_def restore_from_with_map handleXStateAlarm_with_map)
  from ne r copy old muts ops show ?thesis by blast
qed


theorem getScheduledEvents_fresh_copy_witness:
  "getScheduledEvents
     \<lparr>alarms = [], initialized = True,
       currentAlarmId = None, currentAlarmTime = None, setAlarmCalls = [],
       mapHeap = [[(''s1.tick'',
                    \<lparr>s_sourceSessionId = ''s1'', s_targetSessionId = ''s1'',
                      s_event = JObj [(''type'', JStr ''TICK'')], s_delay = 500,
                      s_id = ''tick'', s_startedAt = 1000\<rparr>)]]\<rparr>
   = (1,
      \<lparr>alarms = [], initialized = True,
        currentAlarmId = None, currentAlarmTime = None, setAlarmCalls = [],
        mapHeap = [[(''s1.tick'',
                     \<lparr>s_sourceSessionId = ''s1'', s_targetSessionId = ''s1'',
                       s_event = JObj [(''type'', JStr ''TICK'')], s_delay = 500,
                       s_id = ''tick'', s_startedAt = 1000\<rparr>)],
                   [(''s1.tick'',
                     \<lparr>s_sourceSessionId = ''s1'', s_targetSessionId = ''s1'',
                       s_event = JObj [(''type'', JStr ''TICK'')], s_delay = 500,
                       s_id = ''tick'', s_startedAt = 1000\<rparr>)]]\<rparr>)
   \<and> mapHeap (foldl (\<lambda>v mu. mutate_map 1 mu v)
        \<lparr>alarms = [], initialized = True,
          currentAlarmId = None, currentAlarmTime = None, setAlarmCalls = [],
          mapHeap = [[(''s1.tick'',
                       \<lparr>s_sourceSessionId = ''s1'', s_targetSessionId = ''s1'',
                         s_event = JObj [(''type'', JStr ''TICK'')], s_delay = 500,
                         s_id = ''tick'', s_startedAt = 1000\<rparr>)],
                     [(''s1.tick'',
                       \<lparr>s_sourceSessionId = ''s1'', s_targetSessionId = ''s1'',
                         s_event = JObj [(''type'', JStr ''TICK'')], s_delay = 500,
                         s_id = ''tick'', s_startedAt = 1000\<rparr>)]]\<rparr>
        [MapDelete ''s1.tick'',
         MapSet ''other'' \<lparr>s_sourceSessionId = ''s2'', s_targetSessionId = ''s2'',
                           s_event = JNull, s_delay = 1, s_id = ''other'', s_startedAt = 2\<rparr>])
     = [[(''s1.tick'',
          \<lparr>s_sourceSessionId = ''s1'', s_targetSessionId = ''s1'',
            s_event = JObj [(''type'', JStr ''TICK'')], s_delay = 500,
            s_id = ''tick'', s_startedAt = 1000\<rparr>)],
        [(''other'', \<lparr>s_sourceSessionId = ''s2'', s_targetSessionId = ''s2'',
                      s_event = JNull, s_delay = 1, s_id = ''other'', s_startedAt = 2\<rparr>)]]"
proof -
  let ?e = "(''s1.tick'',
            \<lparr>s_sourceSessionId = ''s1'', s_targetSessionId = ''s1'',
              s_event = JObj [(''type'', JStr ''TICK'')], s_delay = 500,
              s_id = ''tick'', s_startedAt = 1000\<rparr>)"
  let ?w = "\<lparr>alarms = [], initialized = True,
       currentAlarmId = None, currentAlarmTime = None, setAlarmCalls = [],
       mapHeap = [[?e]]\<rparr>"
  let ?w1 = "\<lparr>alarms = [], initialized = True,
       currentAlarmId = None, currentAlarmTime = None, setAlarmCalls = [],
       mapHeap = [[?e], [?e]]\<rparr>"
  have l: "loaded ?w" by (simp add: loaded_def scheduledEventsMap_def)
  have run: "getScheduledEvents ?w = (1, ?w1)"
    by (simp add: getScheduledEvents_def scheduledEventsMap_def)
  from getScheduledEvents_fresh_copy [OF l run]
  have "mapHeap ?w1 ! 1 = mapHeap ?w ! scheduledEventsMap" by blast
  with run show ?thesis
    by (simp add: heap_delete_def heap_set_def Map_delete_def)
qed


end
